theory Spec2Isabelle
  imports Complex_Main
begin

section \<open>Snooker: scoring, ball rack and pocket capture\<close>

text \<open>
  A shallow embedding of the rule and placement code of the snooker game:
  \<^verbatim>\<open>ScoreManager.js\<close>, \<^verbatim>\<open>BallManager.js\<close>, the \<^verbatim>\<open>Ball\<close> class and the pocket table of
  \<^verbatim>\<open>Table.js\<close>, and the first \<^verbatim>\<open>Game\<close> class of \<^verbatim>\<open>Game.js\<close>.

  JavaScript numbers are modelled as follows: coordinates, velocities and forces are
  \<^typ>\<open>real\<close> (the arithmetic of the code read exactly), scores and points are \<^typ>\<open>int\<close>,
  counters are \<^typ>\<open>nat\<close>. Objects are records, mutation is state passing. Rendering,
  sound and console output change none of the modelled state and are left out.
\<close>

subsection \<open>Colours and events\<close>

text \<open>
  \<^verbatim>\<open>colorName\<close> is one of eight string literals in the source (\<^verbatim>\<open>'white'\<close> for the cue
  ball, \<^verbatim>\<open>'red'\<close>, and the six colours); no other value is ever passed to \<^verbatim>\<open>new Ball\<close>.
\<close>

datatype colour = White | Red | Yellow | Green | Brown | Blue | Pink | Black

text \<open>
  The objects pushed by \<^verbatim>\<open>addEvent\<close>: \<^verbatim>\<open>{type: 'pot', color, points, player, time}\<close>,
  \<^verbatim>\<open>{type: 'foul', reason, player, penaltyPoints, time}\<close> and
  \<^verbatim>\<open>{type: 'turnChange', player, time}\<close>. The time is kept as the pair (minutes, seconds)
  that \<^verbatim>\<open>getGameTime\<close> formats.
\<close>

datatype event =
    PotEvent colour int nat "int \<times> int"
  | FoulEvent string nat int "int \<times> int"
  | TurnChangeEvent nat "int \<times> int"

subsection \<open>ScoreManager\<close>

record stats =
  totalShots :: nat
  successfulShots :: nat
  fouls :: nat
  highestBreak :: int
  currentBreak :: int
  ballsPotted :: "colour \<rightharpoonup> nat"
  ballsPottedTotal :: nat
  gameStartTime :: int

record shot =
  ballsHit :: "colour list"
  shotBallsPotted :: "colour list"
  cushionsHit :: nat
  isValid :: bool

record scoreManager =
  player1Score :: int
  player2Score :: int
  currentPlayer :: nat
  stats :: stats
  currentShot :: shot
  recentEvents :: "event list"

text \<open>\<^verbatim>\<open>this.maxRecentEvents = 5\<close> and the table \<^verbatim>\<open>this.ballValues\<close> are set by the constructor
  and never assigned again.\<close>

definition maxRecentEvents :: nat where
  "maxRecentEvents = 5"

fun ballValues :: "colour \<rightharpoonup> int" where
  "ballValues Red = Some 1"
| "ballValues Yellow = Some 2"
| "ballValues Green = Some 3"
| "ballValues Brown = Some 4"
| "ballValues Blue = Some 5"
| "ballValues Pink = Some 6"
| "ballValues Black = Some 7"
| "ballValues White = None"

definition initialBallsPotted :: "colour \<rightharpoonup> nat" where
  "initialBallsPotted = (\<lambda>c. if c = White then None else Some 0)"

definition newShot :: shot where
  "newShot = \<lparr>ballsHit = [], shotBallsPotted = [], cushionsHit = 0, isValid = True\<rparr>"

text \<open>The constructor; \<open>now\<close> is the reading of \<^verbatim>\<open>Date.now()\<close>.\<close>

definition newScoreManager :: "int \<Rightarrow> scoreManager" where
  "newScoreManager now =
     \<lparr>player1Score = 0, player2Score = 0, currentPlayer = 1,
      stats = \<lparr>totalShots = 0, successfulShots = 0, fouls = 0, highestBreak = 0,
               currentBreak = 0, ballsPotted = initialBallsPotted, ballsPottedTotal = 0,
               gameStartTime = now\<rparr>,
      currentShot = newShot,
      recentEvents = []\<rparr>"

text \<open>\<^verbatim>\<open>getGameTime\<close>: minutes and seconds elapsed since the start (for a clock that does
  not run backwards, \<^verbatim>\<open>%\<close> and \<open>mod\<close> agree); the string formatting is left out.\<close>

definition getGameTime :: "int \<Rightarrow> scoreManager \<Rightarrow> int \<times> int" where
  "getGameTime now s =
     (let elapsed = now - gameStartTime (stats s)
      in (elapsed div 60000, (elapsed mod 60000) div 1000))"

text \<open>\<^verbatim>\<open>addEvent\<close>: \<^verbatim>\<open>unshift\<close> puts the event first, \<^verbatim>\<open>pop\<close> drops the last one.\<close>

definition addEvent :: "event \<Rightarrow> scoreManager \<Rightarrow> scoreManager" where
  "addEvent e s =
     (let evs = e # recentEvents s
      in s\<lparr>recentEvents := (if length evs > maxRecentEvents then butlast evs else evs)\<rparr>)"

definition switchPlayer :: "int \<Rightarrow> scoreManager \<Rightarrow> scoreManager" where
  "switchPlayer now s =
     (let s1 = s\<lparr>currentPlayer := (if currentPlayer s = 1 then 2 else 1)\<rparr>
      in addEvent (TurnChangeEvent (currentPlayer s1) (getGameTime now s1)) s1)"

definition startNewShot :: "scoreManager \<Rightarrow> scoreManager" where
  "startNewShot s =
     s\<lparr>currentShot := newShot,
       stats := (stats s)\<lparr>totalShots := totalShots (stats s) + 1\<rparr>\<rparr>"

definition recordBallHit :: "colour \<Rightarrow> scoreManager \<Rightarrow> scoreManager" where
  "recordBallHit ballColor s =
     (if ballColor \<notin> set (ballsHit (currentShot s))
      then s\<lparr>currentShot := (currentShot s)\<lparr>ballsHit := ballsHit (currentShot s) @ [ballColor]\<rparr>\<rparr>
      else s)"

definition recordCushionHit :: "scoreManager \<Rightarrow> scoreManager" where
  "recordCushionHit s =
     s\<lparr>currentShot := (currentShot s)\<lparr>cushionsHit := cushionsHit (currentShot s) + 1\<rparr>\<rparr>"

text \<open>\<^verbatim>\<open>recordBallPotted\<close>. \<^verbatim>\<open>this.ballValues[ballColor] || 0\<close> is 0 for a colour without
  an entry.\<close>

definition pointsOf :: "colour \<Rightarrow> int" where
  "pointsOf ballColor = (case ballValues ballColor of Some v \<Rightarrow> v | None \<Rightarrow> 0)"

definition recordBallPotted :: "colour \<Rightarrow> int \<Rightarrow> scoreManager \<Rightarrow> scoreManager" where
  "recordBallPotted ballColor now s =
     (let s1 = s\<lparr>currentShot := (currentShot s)\<lparr>shotBallsPotted :=
                     shotBallsPotted (currentShot s) @ [ballColor]\<rparr>\<rparr>;
          s2 = (case ballsPotted (stats s1) ballColor of
                  Some n \<Rightarrow> s1\<lparr>stats := (stats s1)\<lparr>ballsPotted :=
                              (ballsPotted (stats s1))(ballColor \<mapsto> n + 1)\<rparr>\<rparr>
                | None \<Rightarrow> s1);
          s3 = s2\<lparr>stats := (stats s2)\<lparr>ballsPottedTotal := ballsPottedTotal (stats s2) + 1\<rparr>\<rparr>;
          points = pointsOf ballColor;
          s4 = (if points > 0 then
                  (let s3a = (if currentPlayer s3 = 1
                              then s3\<lparr>player1Score := player1Score s3 + points\<rparr>
                              else s3\<lparr>player2Score := player2Score s3 + points\<rparr>);
                       s3b = s3a\<lparr>stats := (stats s3a)\<lparr>currentBreak :=
                                      currentBreak (stats s3a) + points\<rparr>\<rparr>
                   in if currentBreak (stats s3b) > highestBreak (stats s3b)
                      then s3b\<lparr>stats := (stats s3b)\<lparr>highestBreak := currentBreak (stats s3b)\<rparr>\<rparr>
                      else s3b)
                else s3)
      in addEvent (PotEvent ballColor points (currentPlayer s4) (getGameTime now s4)) s4)"

text \<open>\<^verbatim>\<open>recordFoul(reason, penaltyPoints = 4)\<close>; a caller that omits the penalty passes 4.\<close>

definition recordFoul :: "string \<Rightarrow> int \<Rightarrow> int \<Rightarrow> scoreManager \<Rightarrow> scoreManager" where
  "recordFoul reason penaltyPoints now s =
     (let s1 = s\<lparr>stats := (stats s)\<lparr>fouls := fouls (stats s) + 1, currentBreak := 0\<rparr>,
                  currentShot := (currentShot s)\<lparr>isValid := False\<rparr>\<rparr>;
          penalty = max 4 penaltyPoints;
          opponent = (if currentPlayer s1 = 1 then 2 else 1 :: nat);
          s2 = (if opponent = 1
                then s1\<lparr>player1Score := player1Score s1 + penalty\<rparr>
                else s1\<lparr>player2Score := player2Score s1 + penalty\<rparr>);
          s3 = addEvent (FoulEvent reason (currentPlayer s2) penalty (getGameTime now s2)) s2
      in switchPlayer now s3)"

definition endShot :: "int \<Rightarrow> scoreManager \<Rightarrow> scoreManager" where
  "endShot now s =
     (if length (shotBallsPotted (currentShot s)) > 0 \<and> isValid (currentShot s)
      then s\<lparr>stats := (stats s)\<lparr>successfulShots := successfulShots (stats s) + 1\<rparr>\<rparr>
      else if length (shotBallsPotted (currentShot s)) = 0
      then (let s1 = switchPlayer now s
            in s1\<lparr>stats := (stats s1)\<lparr>currentBreak := 0\<rparr>\<rparr>)
      else s)"

text \<open>The score of player \<open>p\<close>, read the way the code selects the field to update
  (\<^verbatim>\<open>=== 1\<close> is player 1, anything else player 2).\<close>

definition scoreOf :: "scoreManager \<Rightarrow> nat \<Rightarrow> int" where
  "scoreOf s p = (if p = 1 then player1Score s else player2Score s)"

definition opponentOf :: "nat \<Rightarrow> nat" where
  "opponentOf p = (if p = 1 then 2 else 1)"

subsection \<open>Geometry and the physics library\<close>

text \<open>p5's \<^verbatim>\<open>dist(x1, y1, x2, y2)\<close>.\<close>

definition distp5 :: "real \<Rightarrow> real \<Rightarrow> real \<Rightarrow> real \<Rightarrow> real" where
  "distp5 x1 y1 x2 y2 = sqrt ((x2 - x1) * (x2 - x1) + (y2 - y1) * (y2 - y1))"

record vec =
  xc :: real
  yc :: real

text \<open>
  A Matter.js body, with the fields the game code reads or writes. Membership in the
  engine's world is kept on the body (\<open>inWorld\<close>): every body the code passes to
  \<^verbatim>\<open>World.add\<close> or \<^verbatim>\<open>World.remove\<close> is the body of the ball record at hand, and a body
  removed from the world keeps its last position.
\<close>

record body =
  position :: vec
  velocity :: vec
  force :: vec
  angularVelocity :: real
  circleRadius :: real
  restitution :: real
  friction :: real
  frictionAir :: real
  isSensor :: bool
  label :: string
  inWorld :: bool

text \<open>\<^verbatim>\<open>Bodies.circle(x, y, r, options)\<close>: a body at rest, not yet in the world.\<close>

definition bodiesCircle ::
  "real \<Rightarrow> real \<Rightarrow> real \<Rightarrow> real \<Rightarrow> real \<Rightarrow> real \<Rightarrow> bool \<Rightarrow> string \<Rightarrow> body" where
  "bodiesCircle x y r rest fric fricAir sensor lbl =
     \<lparr>position = \<lparr>xc = x, yc = y\<rparr>, velocity = \<lparr>xc = 0, yc = 0\<rparr>, force = \<lparr>xc = 0, yc = 0\<rparr>,
      angularVelocity = 0, circleRadius = r, restitution = rest, friction = fric,
      frictionAir = fricAir, isSensor = sensor, label = lbl, inWorld = False\<rparr>"

definition worldAdd :: "body \<Rightarrow> body" where
  "worldAdd bd = bd\<lparr>inWorld := True\<rparr>"

definition worldRemove :: "body \<Rightarrow> body" where
  "worldRemove bd = bd\<lparr>inWorld := False\<rparr>"

text \<open>\<^verbatim>\<open>Body.applyForce(body, body.position, f)\<close> adds \<open>f\<close> to the accumulated force (applied
  at the centre it adds no torque); \<^verbatim>\<open>Body.setVelocity\<close>, \<^verbatim>\<open>Body.setPosition\<close> and
  \<^verbatim>\<open>Body.setAngularVelocity\<close> assign.\<close>

definition applyForce :: "vec \<Rightarrow> body \<Rightarrow> body" where
  "applyForce f bd = bd\<lparr>force := \<lparr>xc = xc (force bd) + xc f, yc = yc (force bd) + yc f\<rparr>\<rparr>"

definition setVelocity :: "vec \<Rightarrow> body \<Rightarrow> body" where
  "setVelocity v bd = bd\<lparr>velocity := v\<rparr>"

definition setPosition :: "vec \<Rightarrow> body \<Rightarrow> body" where
  "setPosition p bd = bd\<lparr>position := p\<rparr>"

definition setAngularVelocity :: "real \<Rightarrow> body \<Rightarrow> body" where
  "setAngularVelocity w bd = bd\<lparr>angularVelocity := w\<rparr>"

subsection \<open>Ball\<close>

record ball =
  ballId :: string
  colorName :: colour
  ballScale :: real
  ballOffsetX :: real
  ballOffsetY :: real
  radius :: real
  isPotted :: bool
  body :: body

text \<open>\<^verbatim>\<open>new Ball(x, y, colorName, id, scale, offsetX, offsetY, isSettingUp)\<close>.\<close>

definition newBall ::
  "real \<Rightarrow> real \<Rightarrow> colour \<Rightarrow> string \<Rightarrow> real \<Rightarrow> real \<Rightarrow> real \<Rightarrow> bool \<Rightarrow> ball" where
  "newBall x y cn bid sc ox oy settingUp =
     \<lparr>ballId = bid, colorName = cn, ballScale = sc, ballOffsetX = ox, ballOffsetY = oy,
      radius = 2.472, isPotted = False,
      body = worldAdd (bodiesCircle (ox + x * sc) (oy + y * sc) (2.472 * sc)
                         0.5 0.02 0.025 settingUp bid)\<rparr>"

text \<open>The getters \<^verbatim>\<open>get x()\<close> and \<^verbatim>\<open>get y()\<close>: the body position in game units.\<close>

definition ballX :: "ball \<Rightarrow> real" where
  "ballX b = (xc (position (body b)) - ballOffsetX b) / ballScale b"

definition ballY :: "ball \<Rightarrow> real" where
  "ballY b = (yc (position (body b)) - ballOffsetY b) / ballScale b"

text \<open>\<^verbatim>\<open>Ball.update\<close>: the speed is capped at 15.\<close>

definition ballUpdate :: "ball \<Rightarrow> ball" where
  "ballUpdate b =
     (let v = velocity (body b);
          speed = sqrt (xc v * xc v + yc v * yc v)
      in if speed > 15
         then b\<lparr>body := setVelocity \<lparr>xc = xc v * (15 / speed), yc = yc v * (15 / speed)\<rparr> (body b)\<rparr>
         else b)"

subsection \<open>BallManager\<close>

record ballManager =
  bmScale :: real
  bmOffsetX :: real
  bmOffsetY :: real
  balls :: "ball list"
  isSettingUp :: bool

definition newBallManager :: "real \<Rightarrow> real \<Rightarrow> real \<Rightarrow> ballManager" where
  "newBallManager sc ox oy =
     \<lparr>bmScale = sc, bmOffsetX = ox, bmOffsetY = oy, balls = [], isSettingUp = False\<rparr>"

text \<open>\<^verbatim>\<open>clearBalls\<close> removes every body from the world and empties the list.\<close>

definition clearBalls :: "ballManager \<Rightarrow> ballManager" where
  "clearBalls bm = bm\<lparr>balls := []\<rparr>"

text \<open>\<^verbatim>\<open>getCueBall\<close>: \<^verbatim>\<open>Array.find\<close> returns the first match or \<^verbatim>\<open>undefined\<close>.\<close>

definition getCueBall :: "ballManager \<Rightarrow> ball option" where
  "getCueBall bm = find (\<lambda>b. ballId b = ''cue'') (balls bm)"

definition addBall :: "real \<Rightarrow> real \<Rightarrow> colour \<Rightarrow> string \<Rightarrow> ballManager \<Rightarrow> ballManager" where
  "addBall x y cn bid bm =
     bm\<lparr>balls := balls bm @
        [newBall x y cn bid (bmScale bm) (bmOffsetX bm) (bmOffsetY bm) (isSettingUp bm)]\<rparr>"

text \<open>\<^verbatim>\<open>addCueBall(x, y, enableCollisions = false)\<close>.\<close>

definition addCueBall :: "real \<Rightarrow> real \<Rightarrow> bool \<Rightarrow> ballManager \<Rightarrow> ballManager" where
  "addCueBall x y enableCollisions bm =
     (let bm1 = (case getCueBall bm of
                   Some existingCue \<Rightarrow> bm\<lparr>balls := filter (\<lambda>b. ballId b \<noteq> ''cue'') (balls bm)\<rparr>
                 | None \<Rightarrow> bm)
      in bm1\<lparr>balls := balls bm1 @
           [newBall x y White ''cue'' (bmScale bm1) (bmOffsetX bm1) (bmOffsetY bm1)
              (\<not> enableCollisions)]\<rparr>)"

text \<open>\<^verbatim>\<open>isValidPosition\<close>: the loop over \<^verbatim>\<open>this.balls\<close> returns false at the first ball
  closer than \<^verbatim>\<open>minDistance\<close>.\<close>

definition minDistance :: real where
  "minDistance = 5.0"

fun validAgainst :: "real \<Rightarrow> real \<Rightarrow> ball list \<Rightarrow> bool" where
  "validAgainst x y [] = True"
| "validAgainst x y (b # bs) =
     (if distp5 x y (ballX b) (ballY b) < minDistance then False else validAgainst x y bs)"

definition isValidPosition :: "ballManager \<Rightarrow> real \<Rightarrow> real \<Rightarrow> bool" where
  "isValidPosition bm x y = validAgainst x y (balls bm)"

text \<open>\<^verbatim>\<open>addColoredBalls\<close>.\<close>

definition redApexX :: real where
  "redApexX = 130"

definition ballDiameter :: real where
  "ballDiameter = 4.944"

definition pinkX :: real where
  "pinkX = redApexX - ballDiameter"

definition addColoredBalls :: "ballManager \<Rightarrow> ballManager" where
  "addColoredBalls bm =
     addBall 164 44.5 Black ''black''
       (addBall 44.5 55.625 Yellow ''yellow''
         (addBall 44.5 33.375 Green ''green''
           (addBall 44.5 44.5 Brown ''brown''
             (addBall 89 44.5 Blue ''blue''
               (addBall pinkX 44.5 Pink ''pink'' bm)))))"

text \<open>The template literal \<^verbatim>\<open>`red${i}`\<close>: the decimal digits of the index.\<close>

fun natToString :: "nat \<Rightarrow> string" where
  "natToString n =
     (if n < 10 then [''0123456789'' ! n]
      else natToString (n div 10) @ [''0123456789'' ! (n mod 10)])"

definition redId :: "nat \<Rightarrow> string" where
  "redId i = ''red'' @ natToString i"

text \<open>The triangle of \<^verbatim>\<open>setupStartingPositions\<close>: rows 0 to 4, columns 0 to the row, in
  the order of the two nested loops; \<^verbatim>\<open>ballIndex\<close> counts the balls added.\<close>

definition ballRadiusSetup :: real where
  "ballRadiusSetup = 2.472"

definition spacing :: real where
  "spacing = ballRadiusSetup * 2.05"

definition trianglePositions :: "(real \<times> real) list" where
  "trianglePositions =
     concat (map (\<lambda>row. map (\<lambda>col.
        (130 + real row * spacing * 0.866, 44.5 + (real col - real row / 2) * spacing))
        [0..<Suc row]) [0..<5])"

fun addReds :: "(real \<times> real) list \<Rightarrow> nat \<Rightarrow> ballManager \<Rightarrow> ballManager" where
  "addReds [] ballIndex bm = bm"
| "addReds ((x, y) # ps) ballIndex bm = addReds ps (Suc ballIndex) (addBall x y Red (redId ballIndex) bm)"

text \<open>\<^verbatim>\<open>setupStartingPositions(addCueBall = true)\<close>, up to the \<^verbatim>\<open>setTimeout\<close>; the callback
  is \<open>settleBalls\<close>, run by the environment later.\<close>

definition setupStartingPositions :: "bool \<Rightarrow> ballManager \<Rightarrow> ballManager" where
  "setupStartingPositions withCue bm =
     (let bm1 = (clearBalls bm)\<lparr>isSettingUp := True\<rparr>;
          bm2 = (if withCue then addCueBall 30 44.5 False bm1 else bm1);
          bm3 = addReds trianglePositions 0 bm2
      in addColoredBalls bm3)"

definition settleBalls :: "ballManager \<Rightarrow> ballManager" where
  "settleBalls bm =
     bm\<lparr>isSettingUp := False,
        balls := map (\<lambda>b. b\<lparr>body := (setAngularVelocity 0 (setVelocity \<lparr>xc = 0, yc = 0\<rparr> (body b)))
                                   \<lparr>isSensor := False\<rparr>\<rparr>) (balls bm)\<rparr>"

text \<open>
  The random layouts draw their candidate points from p5's \<^verbatim>\<open>random\<close>. The draws are an
  input here: \<open>rnd k\<close> is the \<open>k\<close>-th pair \<^verbatim>\<open>(random(20, 158), random(10, 79))\<close>, and the
  functions return the number of pairs used so far.

  \<^verbatim>\<open>setupRandomReds\<close> repeats \<^verbatim>\<open>while (!validPosition)\<close> without a bound, so the search
  may not return: it is a partial function.
\<close>

partial_function (option) findValid ::
  "(nat \<Rightarrow> real \<times> real) \<Rightarrow> nat \<Rightarrow> ballManager \<Rightarrow> ((real \<times> real) \<times> nat) option" where
  "findValid rnd k bm =
     (if isValidPosition bm (fst (rnd k)) (snd (rnd k)) then Some (rnd k, Suc k)
      else findValid rnd (Suc k) bm)"

fun addRandomReds ::
  "(nat \<Rightarrow> real \<times> real) \<Rightarrow> nat \<Rightarrow> nat list \<Rightarrow> ballManager \<Rightarrow> (ballManager \<times> nat) option" where
  "addRandomReds rnd k [] bm = Some (bm, k)"
| "addRandomReds rnd k (i # is) bm =
     (case findValid rnd k bm of
        None \<Rightarrow> None
      | Some (xy, k') \<Rightarrow> addRandomReds rnd k' is (addBall (fst xy) (snd xy) Red (redId i) bm))"

definition setupRandomReds ::
  "bool \<Rightarrow> (nat \<Rightarrow> real \<times> real) \<Rightarrow> ballManager \<Rightarrow> (ballManager \<times> nat) option" where
  "setupRandomReds withCue rnd bm =
     (let bm1 = (clearBalls bm)\<lparr>isSettingUp := True\<rparr>;
          bm2 = (if withCue then addCueBall 30 44.5 False bm1 else bm1);
          bm3 = addColoredBalls bm2
      in addRandomReds rnd 0 [0..<15] bm3)"

text \<open>\<^verbatim>\<open>setupRandomAll\<close>: at most 100 draws for each ball; a ball without a valid point
  after them is not added.\<close>

fun tryPlace ::
  "(nat \<Rightarrow> real \<times> real) \<Rightarrow> nat \<Rightarrow> nat \<Rightarrow> ballManager \<Rightarrow> (real \<times> real) option \<times> nat" where
  "tryPlace rnd k 0 bm = (None, k)"
| "tryPlace rnd k (Suc n) bm =
     (if isValidPosition bm (fst (rnd k)) (snd (rnd k)) then (Some (rnd k), Suc k)
      else tryPlace rnd (Suc k) n bm)"

definition ballsToAdd :: "(colour \<times> string) list" where
  "ballsToAdd =
     [(Yellow, ''yellow''), (Green, ''green''), (Brown, ''brown''), (Blue, ''blue''),
      (Pink, ''pink''), (Black, ''black'')] @ map (\<lambda>i. (Red, redId i)) [0..<15]"

fun placeAll ::
  "(nat \<Rightarrow> real \<times> real) \<Rightarrow> nat \<Rightarrow> (colour \<times> string) list \<Rightarrow> ballManager \<Rightarrow> ballManager \<times> nat" where
  "placeAll rnd k [] bm = (bm, k)"
| "placeAll rnd k ((cn, bid) # rest) bm =
     (case tryPlace rnd k 100 bm of
        (Some xy, k') \<Rightarrow> placeAll rnd k' rest (addBall (fst xy) (snd xy) cn bid bm)
      | (None, k') \<Rightarrow> placeAll rnd k' rest bm)"

definition setupRandomAll ::
  "bool \<Rightarrow> (nat \<Rightarrow> real \<times> real) \<Rightarrow> ballManager \<Rightarrow> ballManager \<times> nat" where
  "setupRandomAll withCue rnd bm =
     (let bm1 = (clearBalls bm)\<lparr>isSettingUp := True\<rparr>;
          bm2 = (if withCue then addCueBall 30 44.5 False bm1 else bm1)
      in placeAll rnd 0 ballsToAdd bm2)"

subsection \<open>Table: the pockets\<close>

record pocket =
  px :: real
  py :: real
  pradius :: real

definition tableWidth :: real where
  "tableWidth = 178"

definition tableHeight :: real where
  "tableHeight = 89"

definition pocketRadius :: real where
  "pocketRadius = 3.708"

text \<open>\<^verbatim>\<open>Table.createPockets\<close>: four corner pockets, then the two middle ones.\<close>

definition createPockets :: "real \<Rightarrow> real \<Rightarrow> pocket list" where
  "createPockets width height =
     [\<lparr>px = 0, py = 0, pradius = pocketRadius\<rparr>,
      \<lparr>px = width, py = 0, pradius = pocketRadius\<rparr>,
      \<lparr>px = 0, py = height, pradius = pocketRadius\<rparr>,
      \<lparr>px = width, py = height, pradius = pocketRadius\<rparr>,
      \<lparr>px = width / 2, py = 0, pradius = pocketRadius\<rparr>,
      \<lparr>px = width / 2, py = height, pradius = pocketRadius\<rparr>]"

subsection \<open>Game\<close>

text \<open>
  The game state. \<open>pockets\<close> is \<^verbatim>\<open>this.table.pockets\<close>. \<^verbatim>\<open>lastPottedBall\<close> refers to a
  ball object of which the code reads only \<^verbatim>\<open>colorName\<close>, which never changes: the field
  holds that colour, \<open>None\<close> for \<^verbatim>\<open>null\<close>. The preview coordinates
  \<^verbatim>\<open>cueBallPlacementX/Y\<close> and the cue stick are drawing and aiming state and are left out.
\<close>

record game =
  scale :: real
  offsetX :: real
  offsetY :: real
  pockets :: "pocket list"
  ballManager :: ballManager
  scoreManager :: scoreManager
  displayMode :: nat
  isPaused :: bool
  collisionReports :: "string list"
  ballsMoving :: bool
  isPlacingCueBall :: bool
  consecutiveColoredPotted :: nat
  lastPottedBall :: "colour option"

text \<open>A write to a field of the ball object at index \<open>i\<close> of \<^verbatim>\<open>ballManager.balls\<close>.\<close>

definition updateBall :: "nat \<Rightarrow> (ball \<Rightarrow> ball) \<Rightarrow> game \<Rightarrow> game" where
  "updateBall i f g =
     g\<lparr>ballManager := (ballManager g)\<lparr>balls := (balls (ballManager g))[i := f (balls (ballManager g) ! i)]\<rparr>\<rparr>"

text \<open>\<^verbatim>\<open>calculateScale\<close>, from the window size.\<close>

definition calculateScale :: "real \<Rightarrow> real \<Rightarrow> real \<times> real \<times> real" where
  "calculateScale windowWidth windowHeight =
     (let targetWidth = windowWidth * 0.6;
          targetHeight = windowHeight * 0.6;
          scaleX = targetWidth / tableWidth;
          scaleY = targetHeight / tableHeight;
          sc = min (min scaleX scaleY) 5
      in (sc, (windowWidth - tableWidth * sc) / 2, (windowHeight - tableHeight * sc) / 2))"

text \<open>\<^verbatim>\<open>isValidCueBallPosition\<close>.\<close>

definition isValidCueBallPosition :: "game \<Rightarrow> real \<Rightarrow> real \<Rightarrow> bool" where
  "isValidCueBallPosition g x y =
     (let dRadius = 14.5 :: real;
          baulkLine = 44.5 :: real;
          dCenterX = baulkLine;
          dCenterY = 44.5 :: real;
          dx = x - dCenterX;
          dy = y - dCenterY;
          distance = sqrt (dx * dx + dy * dy)
      in if distance \<le> dRadius \<and> x \<le> baulkLine
         then isValidPosition (ballManager g) x y
         else False)"

text \<open>\<^verbatim>\<open>respotColoredBall\<close>.\<close>

fun spots :: "colour \<rightharpoonup> real \<times> real" where
  "spots Yellow = Some (44.5, 55.625)"
| "spots Green = Some (44.5, 33.375)"
| "spots Brown = Some (44.5, 44.5)"
| "spots Blue = Some (89, 44.5)"
| "spots Pink = Some (141, 44.5)"
| "spots Black = Some (164, 44.5)"
| "spots Red = None"
| "spots White = None"

fun colourString :: "colour \<Rightarrow> string" where
  "colourString White = ''white''"
| "colourString Red = ''red''"
| "colourString Yellow = ''yellow''"
| "colourString Green = ''green''"
| "colourString Brown = ''brown''"
| "colourString Blue = ''blue''"
| "colourString Pink = ''pink''"
| "colourString Black = ''black''"

definition respotBody :: "game \<Rightarrow> real \<times> real \<Rightarrow> ball \<Rightarrow> body" where
  "respotBody g spot b =
     worldAdd (bodiesCircle (offsetX g + fst spot * scale g) (offsetY g + snd spot * scale g)
                 (radius b * scale g) 0.5 0.01 0.015 False (ballId b))"

definition respotColoredBall :: "nat \<Rightarrow> game \<Rightarrow> game" where
  "respotColoredBall i g =
     (let b = balls (ballManager g) ! i
      in case spots (colorName b) of
           None \<Rightarrow> g
         | Some spot \<Rightarrow>
             if isValidPosition (ballManager g) (fst spot) (snd spot)
             then (updateBall i (\<lambda>b. b\<lparr>isPotted := False, body := respotBody g spot b\<rparr>) g)
                    \<lparr>collisionReports := (colourString (colorName b) @ '' ball re-spotted'')
                                          # collisionReports g\<rparr>
             else g)"

text \<open>\<^verbatim>\<open>handleBallPotted(ball)\<close>, for the ball at index \<open>i\<close>.\<close>

definition isColoured :: "colour \<Rightarrow> bool" where
  "isColoured cn = (cn \<noteq> Red \<and> cn \<noteq> White)"

definition handleBallPotted :: "int \<Rightarrow> nat \<Rightarrow> game \<Rightarrow> game" where
  "handleBallPotted now i g =
     (let cn = colorName (balls (ballManager g) ! i);
          g1 = updateBall i (\<lambda>b. b\<lparr>isPotted := True, body := worldRemove (body b)\<rparr>) g;
          g2 = (if cn \<noteq> White
                then g1\<lparr>scoreManager := recordBallPotted cn now (scoreManager g1)\<rparr>
                else g1);
          g3 = (if cn \<noteq> Red \<and> cn \<noteq> White then
                  (let g2a =
                     (if (case lastPottedBall g2 of
                            Some l \<Rightarrow> l \<noteq> Red \<and> l \<noteq> White
                          | None \<Rightarrow> False)
                      then (let g2b = g2\<lparr>consecutiveColoredPotted := consecutiveColoredPotted g2 + 1\<rparr>
                            in if consecutiveColoredPotted g2b \<ge> 2
                               then g2b\<lparr>scoreManager :=
                                      recordFoul ''Two consecutive colored balls potted'' 4 now
                                        (scoreManager g2b)\<rparr>
                               else g2b)
                      else g2\<lparr>consecutiveColoredPotted := 1\<rparr>)
                   in respotColoredBall i g2a)
                else if cn = Red then g2\<lparr>consecutiveColoredPotted := 0\<rparr>
                else if cn = White then
                  (let g2c = g2\<lparr>isPlacingCueBall := True\<rparr>
                   in g2c\<lparr>scoreManager := recordFoul ''Cue ball potted'' 4 now (scoreManager g2c)\<rparr>)
                else g2)
      in g3\<lparr>lastPottedBall := Some cn\<rparr>)"

text \<open>\<^verbatim>\<open>checkPottedBalls\<close>. \<open>attract\<close> is the body of the first \<^verbatim>\<open>if\<close> of the pocket loop,
  \<open>checkPockets\<close> the loop over the pockets for one ball (it ends at the \<^verbatim>\<open>break\<close>),
  \<open>checkBall\<close> one round of the loop over the balls.\<close>

definition attract :: "game \<Rightarrow> pocket \<Rightarrow> body \<Rightarrow> body" where
  "attract g p bd =
     (let pocketX = offsetX g + px p * scale g;
          pocketY = offsetY g + py p * scale g;
          attractionStrength = 0.0008 :: real;
          f = \<lparr>xc = (pocketX - xc (position bd)) * attractionStrength,
               yc = (pocketY - yc (position bd)) * attractionStrength\<rparr>;
          bd1 = applyForce f bd
      in setVelocity \<lparr>xc = xc (velocity bd1) * 0.88, yc = yc (velocity bd1) * 0.88\<rparr> bd1)"

fun checkPockets :: "real \<Rightarrow> real \<Rightarrow> int \<Rightarrow> nat \<Rightarrow> pocket list \<Rightarrow> game \<Rightarrow> game" where
  "checkPockets bx by now i [] g = g"
| "checkPockets bx by now i (p # ps) g =
     (let distance = distp5 bx by (px p) (py p);
          g1 = (if distance < pradius p * 2.2 \<and> distance > pradius p * 0.3
                then updateBall i (\<lambda>b. b\<lparr>body := attract g p (body b)\<rparr>) g
                else g)
      in if distance < pradius p * 0.85
         then handleBallPotted now i g1
         else checkPockets bx by now i ps g1)"

definition checkBall :: "int \<Rightarrow> nat \<Rightarrow> game \<Rightarrow> game" where
  "checkBall now i g =
     (let b = balls (ballManager g) ! i
      in if isPotted b then g
         else checkPockets ((xc (position (body b)) - offsetX g) / scale g)
                           ((yc (position (body b)) - offsetY g) / scale g)
                           now i (pockets g) g)"

definition checkPottedBalls :: "int \<Rightarrow> game \<Rightarrow> game" where
  "checkPottedBalls now g =
     foldl (\<lambda>g i. checkBall now i g) g [0..<length (balls (ballManager g))]"

text \<open>\<^verbatim>\<open>checkBallsMoving\<close> and \<^verbatim>\<open>checkEscapedBalls\<close>.\<close>

definition checkBallsMoving :: "game \<Rightarrow> bool" where
  "checkBallsMoving g =
     list_ex (\<lambda>b. \<not> isPotted b \<and>
                sqrt (xc (velocity (body b)) * xc (velocity (body b))
                      + yc (velocity (body b)) * yc (velocity (body b))) > 0.1)
       (balls (ballManager g))"

definition escapeReset :: "game \<Rightarrow> ball \<Rightarrow> ball" where
  "escapeReset g b =
     (let margin = 50 :: real;
          pos = position (body b);
          tableLeft = offsetX g - margin;
          tableRight = offsetX g + tableWidth * scale g + margin;
          tableTop = offsetY g - margin;
          tableBottom = offsetY g + tableHeight * scale g + margin
      in if isPotted b then b
         else if xc pos < tableLeft \<or> xc pos > tableRight \<or> yc pos < tableTop \<or> yc pos > tableBottom
         then b\<lparr>body := setAngularVelocity 0 (setVelocity \<lparr>xc = 0, yc = 0\<rparr>
                   (setPosition \<lparr>xc = offsetX g + tableWidth * scale g / 2,
                                 yc = offsetY g + tableHeight * scale g / 2\<rparr> (body b)))\<rparr>
         else b)"

definition checkEscapedBalls :: "game \<Rightarrow> game" where
  "checkEscapedBalls g =
     g\<lparr>ballManager := (ballManager g)\<lparr>balls := map (escapeReset g) (balls (ballManager g))\<rparr>\<rparr>"

text \<open>\<^verbatim>\<open>Game.update\<close>, one frame of game logic after the physics engine has run.\<close>

definition gameUpdate :: "int \<Rightarrow> game \<Rightarrow> game" where
  "gameUpdate now g =
     (if \<not> isPaused g then
        (let g1 = g\<lparr>ballManager := (ballManager g)\<lparr>balls := map ballUpdate (balls (ballManager g))\<rparr>\<rparr>;
             wasMoving = ballsMoving g1;
             g2 = g1\<lparr>ballsMoving := checkBallsMoving g1\<rparr>;
             g3 = (if wasMoving \<and> \<not> ballsMoving g2
                   then g2\<lparr>scoreManager := endShot now (scoreManager g2)\<rparr>
                   else g2);
             g4 = checkPottedBalls now g3
         in checkEscapedBalls g4)
      else g)"

text \<open>The constructor with \<^verbatim>\<open>initializeGame\<close>: the standard layout without a cue ball.\<close>

definition initializeGame :: "game \<Rightarrow> game" where
  "initializeGame g =
     g\<lparr>ballManager := setupStartingPositions False (ballManager g), isPlacingCueBall := True\<rparr>"

definition newGame :: "real \<Rightarrow> real \<Rightarrow> int \<Rightarrow> game" where
  "newGame windowWidth windowHeight now =
     (case calculateScale windowWidth windowHeight of
        (sc, ox, oy) \<Rightarrow>
          initializeGame
            \<lparr>scale = sc, offsetX = ox, offsetY = oy,
             pockets = createPockets tableWidth tableHeight,
             ballManager = newBallManager sc ox oy,
             scoreManager = newScoreManager now,
             displayMode = 1, isPaused = False, collisionReports = [],
             ballsMoving = False, isPlacingCueBall = True,
             consecutiveColoredPotted = 0, lastPottedBall = None\<rparr>)"

text \<open>\<^verbatim>\<open>handleKeyPress\<close>: the keys 1, 2 and 3 lay the table out again, each without a cue
  ball; any other key changes nothing. The result is \<open>None\<close> when the unbounded search of
  mode 2 does not return.\<close>

definition resetForLayout :: "nat \<Rightarrow> ballManager \<Rightarrow> game \<Rightarrow> game" where
  "resetForLayout mode bm g =
     g\<lparr>displayMode := mode, ballManager := bm, isPlacingCueBall := True,
       consecutiveColoredPotted := 0, lastPottedBall := None\<rparr>"

definition handleKeyPress :: "char \<Rightarrow> (nat \<Rightarrow> real \<times> real) \<Rightarrow> game \<Rightarrow> game option" where
  "handleKeyPress key rnd g =
     (if key = CHR ''1'' then
        Some (resetForLayout 1 (setupStartingPositions False (ballManager g)) g)
      else if key = CHR ''2'' then
        (case setupRandomReds False rnd (ballManager g) of
           None \<Rightarrow> None
         | Some (bm, k) \<Rightarrow> Some (resetForLayout 2 bm g))
      else if key = CHR ''3'' then
        Some (resetForLayout 3 (fst (setupRandomAll False rnd (ballManager g))) g)
      else Some g)"

text \<open>\<^verbatim>\<open>handleMousePress\<close>: while the cue ball is to be placed, a click on a valid point
  places it; otherwise the click only starts aiming, which changes the cue stick alone.\<close>

definition handleMousePress :: "real \<Rightarrow> real \<Rightarrow> game \<Rightarrow> game" where
  "handleMousePress x y g =
     (if isPlacingCueBall g then
        (let gameX = (x - offsetX g) / scale g;
             gameY = (y - offsetY g) / scale g
         in if isValidCueBallPosition g gameX gameY
            then g\<lparr>ballManager := addCueBall gameX gameY True (ballManager g),
                   isPlacingCueBall := False,
                   collisionReports := ''Cue ball placed successfully'' # collisionReports g\<rparr>
            else g)
      else g)"

text \<open>\<^verbatim>\<open>updateTablePosition\<close> with \<^verbatim>\<open>updateCueBallPosition\<close>, on a window resize.\<close>

fun updateFirst :: "('a \<Rightarrow> bool) \<Rightarrow> ('a \<Rightarrow> 'a) \<Rightarrow> 'a list \<Rightarrow> 'a list" where
  "updateFirst P f [] = []"
| "updateFirst P f (x # xs) = (if P x then f x # xs else x # updateFirst P f xs)"

definition updateCueBallPosition :: "game \<Rightarrow> game" where
  "updateCueBallPosition g =
     (let baulkLine = 44.5 :: real;
          newX = baulkLine * scale g;
          newY = (tableHeight / 2) * scale g
      in g\<lparr>ballManager := (ballManager g)\<lparr>balls :=
             updateFirst (\<lambda>b. ballId b = ''cue'')
               (\<lambda>b. b\<lparr>body := setPosition \<lparr>xc = offsetX g + newX, yc = offsetY g + newY\<rparr> (body b)\<rparr>)
               (balls (ballManager g))\<rparr>\<rparr>)"

definition updateTablePosition :: "real \<Rightarrow> real \<Rightarrow> game \<Rightarrow> game" where
  "updateTablePosition windowWidth windowHeight g =
     (case calculateScale windowWidth windowHeight of
        (sc, ox, oy) \<Rightarrow>
          (let deltaX = ox - offsetX g;
               deltaY = oy - offsetY g;
               shift = (\<lambda>b. if \<not> isPotted b
                            then b\<lparr>body := setPosition
                                     \<lparr>xc = xc (position (body b)) + deltaX,
                                      yc = yc (position (body b)) + deltaY\<rparr> (body b)\<rparr>
                            else b);
               g1 = g\<lparr>scale := sc, offsetX := ox, offsetY := oy,
                      ballManager := (ballManager g)\<lparr>bmOffsetX := ox, bmOffsetY := oy,
                                                     balls := map shift (balls (ballManager g))\<rparr>\<rparr>
           in if isPlacingCueBall g1 then updateCueBallPosition g1 else g1))"

subsection \<open>The states the game can reach\<close>

text \<open>
  The game runs on the callbacks of \<^verbatim>\<open>sketch.js\<close>. The physics engine, the mouse gesture
  of the cue stick and the collision events come from outside the modelled code and are
  taken as arbitrary:
  \<^item> \<open>engineMoved\<close>: \<^verbatim>\<open>Engine.update\<close> (and the force of a cue strike) may change the
    position, velocity, force and angular velocity of any body, and nothing else;
  \<^item> a mouse release may or may not count as a shot (\<^verbatim>\<open>Cue.shoot\<close> decides); when it
    does, \<^verbatim>\<open>startNewShot\<close> runs;
  \<^item> a collision start may report any colour hit by the cue ball, or a cushion hit.
\<close>

definition engineMoved :: "ball \<Rightarrow> ball \<Rightarrow> bool" where
  "engineMoved b b' =
     (b' = b\<lparr>body := (body b)\<lparr>position := position (body b'), velocity := velocity (body b'),
                               force := force (body b'),
                               angularVelocity := angularVelocity (body b')\<rparr>\<rparr>)"

inductive reachable :: "game \<Rightarrow> bool" where
  start: "reachable (newGame windowWidth windowHeight now)"
| engine: "reachable g \<Longrightarrow> list_all2 engineMoved (balls (ballManager g)) bs \<Longrightarrow>
     reachable (g\<lparr>ballManager := (ballManager g)\<lparr>balls := bs\<rparr>\<rparr>)"
| frame: "reachable g \<Longrightarrow> reachable (gameUpdate now g)"
| key: "reachable g \<Longrightarrow> handleKeyPress k rnd g = Some g' \<Longrightarrow> reachable g'"
| press: "reachable g \<Longrightarrow> reachable (handleMousePress x y g)"
| shoot: "reachable g \<Longrightarrow> \<not> isPlacingCueBall g \<Longrightarrow> getCueBall (ballManager g) \<noteq> None \<Longrightarrow>
     reachable (g\<lparr>scoreManager := startNewShot (scoreManager g)\<rparr>)"
| settle: "reachable g \<Longrightarrow> reachable (g\<lparr>ballManager := settleBalls (ballManager g)\<rparr>)"
| resize: "reachable g \<Longrightarrow> reachable (updateTablePosition windowWidth windowHeight g)"
| ballHit: "reachable g \<Longrightarrow> reachable (g\<lparr>scoreManager := recordBallHit c (scoreManager g)\<rparr>)"
| cushionHit: "reachable g \<Longrightarrow> reachable (g\<lparr>scoreManager := recordCushionHit (scoreManager g)\<rparr>)"

text \<open>The number of cue-ball records: the balls of \<^verbatim>\<open>ballManager.balls\<close> with id
  \<^verbatim>\<open>'cue'\<close>.\<close>

definition cueRecords :: "ballManager \<Rightarrow> nat" where
  "cueRecords bm = length (filter (\<lambda>b. ballId b = ''cue'') (balls bm))"

text \<open>The ids of the ball records, in list order.\<close>

definition ballIds :: "ballManager \<Rightarrow> string list" where
  "ballIds bm = map ballId (balls bm)"

subsection \<open>Vocabulary of the statements\<close>

text \<open>The position of a ball in game units as \<^verbatim>\<open>checkPottedBalls\<close> computes it, with the
  game's own offset and scale. The division is that of the reals; it is the division of the
  program whenever the scale is not zero, and the statements about these coordinates are
  made for a scale that is not zero.\<close>

definition gameX :: "game \<Rightarrow> ball \<Rightarrow> real" where
  "gameX g b = (xc (position (body b)) - offsetX g) / scale g"

definition gameY :: "game \<Rightarrow> ball \<Rightarrow> real" where
  "gameY g b = (yc (position (body b)) - offsetY g) / scale g"

text \<open>The two tests of the pocket loop, for a ball at \<open>(bx, by)\<close>.\<close>

definition inCaptureRange :: "real \<Rightarrow> real \<Rightarrow> pocket \<Rightarrow> bool" where
  "inCaptureRange bx by p = (distp5 bx by (px p) (py p) < pradius p * 0.85)"

definition inAttractionZone :: "real \<Rightarrow> real \<Rightarrow> pocket \<Rightarrow> bool" where
  "inAttractionZone bx by p =
     (distp5 bx by (px p) (py p) < pradius p * 2.2 \<and> distp5 bx by (px p) (py p) > pradius p * 0.3)"

text \<open>The first statement of a round of the pocket loop: the attraction, when the ball
  is in the zone.\<close>

definition attractStep :: "real \<Rightarrow> real \<Rightarrow> nat \<Rightarrow> game \<Rightarrow> pocket \<Rightarrow> game" where
  "attractStep bx by i g p =
     (if inAttractionZone bx by p then updateBall i (\<lambda>b. b\<lparr>body := attract g p (body b)\<rparr>) g else g)"

text \<open>The pockets the loop visits: all those before the first capturing pocket, and that
  pocket itself.\<close>

definition pocketsTried :: "real \<Rightarrow> real \<Rightarrow> pocket list \<Rightarrow> pocket list" where
  "pocketsTried bx by ps =
     takeWhile (\<lambda>p. \<not> inCaptureRange bx by p) ps
       @ take 1 (dropWhile (\<lambda>p. \<not> inCaptureRange bx by p) ps)"

text \<open>What the pot handler leaves of the ball it handled: the ball is marked potted and
  its body is out of the world, or (a colour whose spot was free) it is back on the table,
  its new body on the spot.\<close>

definition pottedOrRespotted :: "game \<Rightarrow> ball \<Rightarrow> bool" where
  "pottedOrRespotted g b =
     (if isPotted b then \<not> inWorld (body b)
      else inWorld (body b) \<and>
           (case spots (colorName b) of
              None \<Rightarrow> False
            | Some spot \<Rightarrow> position (body b) =
                \<lparr>xc = offsetX g + fst spot * scale g, yc = offsetY g + snd spot * scale g\<rparr>))"

text \<open>Two ball records that differ at most in the velocity and the accumulated force of
  the body.\<close>

definition sameButMotion :: "ball \<Rightarrow> ball \<Rightarrow> bool" where
  "sameButMotion b b' =
     (b' = b\<lparr>body := (body b)\<lparr>velocity := velocity (body b'), force := force (body b')\<rparr>\<rparr>)"

text \<open>The counter of consecutive colours is at least 1 whenever the ball potted last was
  a colour.\<close>

definition colourCounted :: "game \<Rightarrow> bool" where
  "colourCounted g =
     (case lastPottedBall g of
        None \<Rightarrow> True
      | Some l \<Rightarrow> if isColoured l then 1 \<le> consecutiveColoredPotted g else True)"

text \<open>The match state: the score manager with the rule-tracking fields of the game and the
  potted flags of the rack.\<close>

definition matchState ::
  "game \<Rightarrow> scoreManager \<times> nat \<times> colour option \<times> bool \<times> bool list" where
  "matchState g =
     (scoreManager g, consecutiveColoredPotted g, lastPottedBall g, isPlacingCueBall g,
      map isPotted (balls (ballManager g)))"

text \<open>No ball on the table lies inside the capture radius of a pocket.\<close>

definition capturable :: "game \<Rightarrow> ball \<Rightarrow> bool" where
  "capturable g b =
     (\<not> isPotted b \<and> list_ex (inCaptureRange (gameX g b) (gameY g b)) (pockets g))"

definition quiet :: "game \<Rightarrow> bool" where
  "quiet g = (\<not> list_ex (capturable g) (balls (ballManager g)))"

subsection \<open>Example states\<close>

text \<open>A table in a window of 1600 by 805 pixels (scale 5, offsets 355 and 180) whose rack
  holds one red ball, two units from the centre of the top-left pocket and moving at
  \<open>(1, 0)\<close>.\<close>

abbreviation movingRed :: ball where
  "movingRed \<equiv>
     (newBall 2 0 Red ''red0'' 5 355 180 False)
       \<lparr>body := setVelocity \<lparr>xc = 1, yc = 0\<rparr> (body (newBall 2 0 Red ''red0'' 5 355 180 False))\<rparr>"

abbreviation gameNearPocket :: game where
  "gameNearPocket \<equiv>
     (newGame 1600 805 0)\<lparr>ballManager := (newBallManager 5 355 180)\<lparr>balls := [movingRed]\<rparr>\<rparr>"

text \<open>The same table with a rack of the six colours on their layout positions and no other
  ball; the pink ball is the first of the list.\<close>

abbreviation gameColours :: game where
  "gameColours \<equiv> (newGame 1600 805 0)\<lparr>ballManager := addColoredBalls (newBallManager 5 355 180)\<rparr>"

subsection \<open>Properties of the score manager\<close>

lemma addEvent_fields [simp]:
  "player1Score (addEvent e s) = player1Score s"
  "player2Score (addEvent e s) = player2Score s"
  "currentPlayer (addEvent e s) = currentPlayer s"
  "stats (addEvent e s) = stats s"
  "currentShot (addEvent e s) = currentShot s"
  by (simp_all add: addEvent_def Let_def)

lemma addEvent_events:
  "recentEvents (addEvent e s) =
     (if length (recentEvents s) \<ge> maxRecentEvents then butlast (e # recentEvents s) else e # recentEvents s)"
  by (auto simp add: addEvent_def Let_def)

lemma addEvent_hd: "\<exists>es. recentEvents (addEvent e s) = e # es"
  by (cases "recentEvents s") (auto simp add: addEvent_def Let_def maxRecentEvents_def)

lemma switchPlayer_fields [simp]:
  "player1Score (switchPlayer now s) = player1Score s"
  "player2Score (switchPlayer now s) = player2Score s"
  "currentPlayer (switchPlayer now s) = opponentOf (currentPlayer s)"
  "stats (switchPlayer now s) = stats s"
  "currentShot (switchPlayer now s) = currentShot s"
  by (simp_all add: switchPlayer_def Let_def opponentOf_def)

lemma take2_two_events:
  assumes "recentEvents s1 = recentEvents (addEvent e1 s)"
  shows "take 2 (recentEvents (addEvent e2 s1)) = [e2, e1]"
proof -
  obtain es where es: "recentEvents s1 = e1 # es"
    using addEvent_hd [of e1 s] assms by auto
  have "recentEvents (addEvent e2 s1) =
          (if maxRecentEvents \<le> length (e1 # es) then butlast (e2 # e1 # es) else e2 # e1 # es)"
    unfolding addEvent_events [of e2] es by simp
  then show ?thesis
    by (cases es) (simp_all add: maxRecentEvents_def)
qed

lemma switchPlayer_as_addEvent:
  "switchPlayer now s =
     addEvent (TurnChangeEvent (opponentOf (currentPlayer s)) (getGameTime now s))
       (s\<lparr>currentPlayer := opponentOf (currentPlayer s)\<rparr>)"
  by (simp add: switchPlayer_def Let_def opponentOf_def getGameTime_def)

lemma recordFoul_events:
  "take 2 (recentEvents (recordFoul reason penaltyPoints now s))
       = [TurnChangeEvent (opponentOf (currentPlayer s)) (getGameTime now s),
          FoulEvent reason (currentPlayer s) (max 4 penaltyPoints) (getGameTime now s)]"
proof -
  define s2 where "s2 = (if opponentOf (currentPlayer s) = 1
      then s\<lparr>stats := (stats s)\<lparr>fouls := fouls (stats s) + 1, currentBreak := 0\<rparr>,
             currentShot := (currentShot s)\<lparr>isValid := False\<rparr>,
             player1Score := player1Score s + max 4 penaltyPoints\<rparr>
      else s\<lparr>stats := (stats s)\<lparr>fouls := fouls (stats s) + 1, currentBreak := 0\<rparr>,
             currentShot := (currentShot s)\<lparr>isValid := False\<rparr>,
             player2Score := player2Score s + max 4 penaltyPoints\<rparr>)"
  define e1 where "e1 = FoulEvent reason (currentPlayer s) (max 4 penaltyPoints) (getGameTime now s)"
  define e2 where "e2 = TurnChangeEvent (opponentOf (currentPlayer s)) (getGameTime now s)"
  define s3 where "s3 = (addEvent e1 s2)\<lparr>currentPlayer := opponentOf (currentPlayer s)\<rparr>"
  have cp: "currentPlayer s2 = currentPlayer s"
    by (simp add: s2_def)
  have gt: "getGameTime now s2 = getGameTime now s"
    by (simp add: s2_def getGameTime_def)
  have gt': "getGameTime now (addEvent e1 s2) = getGameTime now s"
    using gt by (simp add: getGameTime_def)
  have "recordFoul reason penaltyPoints now s = switchPlayer now (addEvent e1 s2)"
    unfolding recordFoul_def Let_def s2_def e1_def opponentOf_def getGameTime_def by simp
  also have "\<dots> = addEvent e2 s3"
    unfolding switchPlayer_as_addEvent gt' by (simp add: e2_def s3_def cp)
  finally have eq: "recordFoul reason penaltyPoints now s = addEvent e2 s3" .
  have "recentEvents s3 = recentEvents (addEvent e1 s2)"
    by (simp add: s3_def)
  from take2_two_events [OF this, of e2] show ?thesis
    by (simp add: eq e1_def e2_def)
qed

text \<open>
  Claim C3. For every state of the score manager and every call \<^verbatim>\<open>recordFoul(reason, penalty)\<close>:
  exactly \<open>max 4 penalty\<close> points are added to the score of the opponent of the player who is
  current at the call, and the score of that player is unchanged; the current break is 0
  afterwards and the current shot is invalid; the current player is switched once (to the
  opponent); one foul is counted; and the log starts with the one turn-change event
  followed by the foul event.
\<close>

theorem recordFoul_effect:
  "scoreOf (recordFoul reason penaltyPoints now s) (opponentOf (currentPlayer s))
     = scoreOf s (opponentOf (currentPlayer s)) + max 4 penaltyPoints
   \<and> scoreOf (recordFoul reason penaltyPoints now s) (currentPlayer s) = scoreOf s (currentPlayer s)
   \<and> currentBreak (stats (recordFoul reason penaltyPoints now s)) = 0
   \<and> \<not> isValid (currentShot (recordFoul reason penaltyPoints now s))
   \<and> currentPlayer (recordFoul reason penaltyPoints now s) = opponentOf (currentPlayer s)
   \<and> opponentOf (currentPlayer s) \<noteq> currentPlayer s
   \<and> fouls (stats (recordFoul reason penaltyPoints now s)) = fouls (stats s) + 1
   \<and> take 2 (recentEvents (recordFoul reason penaltyPoints now s))
       = [TurnChangeEvent (opponentOf (currentPlayer s)) (getGameTime now s),
          FoulEvent reason (currentPlayer s) (max 4 penaltyPoints) (getGameTime now s)]"
  apply (intro conjI)
         apply (simp_all add: recordFoul_events)
        apply (simp_all add: recordFoul_def Let_def scoreOf_def opponentOf_def)
  done

text \<open>
  Claim C4. At the end of a shot: if no ball was potted during the shot, the current player
  is switched and the current break is reset to 0; if at least one ball was potted and the
  shot is marked valid, the counter of successful shots is incremented (nothing else
  changes), so the current player is not switched, however many balls were potted.
\<close>

theorem endShot_turn_law:
  "(shotBallsPotted (currentShot s) = [] \<longrightarrow>
      currentPlayer (endShot now s) = opponentOf (currentPlayer s)
      \<and> opponentOf (currentPlayer s) \<noteq> currentPlayer s
      \<and> currentBreak (stats (endShot now s)) = 0
      \<and> successfulShots (stats (endShot now s)) = successfulShots (stats s))
   \<and> (shotBallsPotted (currentShot s) \<noteq> [] \<and> isValid (currentShot s) \<longrightarrow>
      endShot now s = s\<lparr>stats := (stats s)\<lparr>successfulShots := successfulShots (stats s) + 1\<rparr>\<rparr>
      \<and> successfulShots (stats (endShot now s)) = successfulShots (stats s) + 1
      \<and> currentPlayer (endShot now s) = currentPlayer s)"
  by (simp add: endShot_def Let_def opponentOf_def)

theorem endShot_turn_law_witness:
  "currentPlayer (endShot 0 (startNewShot (newScoreManager 0))) = 2
   \<and> currentBreak (stats (endShot 0 (startNewShot (newScoreManager 0)))) = 0
   \<and> successfulShots (stats (endShot 0 (recordBallPotted Red 0 (startNewShot (newScoreManager 0))))) = 1
   \<and> currentPlayer (endShot 0 (recordBallPotted Red 0 (startNewShot (newScoreManager 0)))) = 1"
  using endShot_turn_law [of "startNewShot (newScoreManager 0)" 0]
        endShot_turn_law [of "recordBallPotted Red 0 (startNewShot (newScoreManager 0))" 0]
  by (simp add: startNewShot_def newScoreManager_def newShot_def opponentOf_def recordBallPotted_def
        Let_def pointsOf_def initialBallsPotted_def)

subsection \<open>Properties of the pot handler\<close>

lemma updateBall_fields [simp]:
  "scoreManager (updateBall i f g) = scoreManager g"
  "lastPottedBall (updateBall i f g) = lastPottedBall g"
  "consecutiveColoredPotted (updateBall i f g) = consecutiveColoredPotted g"
  "isPlacingCueBall (updateBall i f g) = isPlacingCueBall g"
  "scale (updateBall i f g) = scale g"
  "offsetX (updateBall i f g) = offsetX g"
  "offsetY (updateBall i f g) = offsetY g"
  "pockets (updateBall i f g) = pockets g"
  "collisionReports (updateBall i f g) = collisionReports g"
  "ballsMoving (updateBall i f g) = ballsMoving g"
  "isPaused (updateBall i f g) = isPaused g"
  "displayMode (updateBall i f g) = displayMode g"
  "length (balls (ballManager (updateBall i f g))) = length (balls (ballManager g))"
  by (simp_all add: updateBall_def)

lemma respot_fields [simp]:
  "scoreManager (respotColoredBall i g) = scoreManager g"
  "lastPottedBall (respotColoredBall i g) = lastPottedBall g"
  "consecutiveColoredPotted (respotColoredBall i g) = consecutiveColoredPotted g"
  "isPlacingCueBall (respotColoredBall i g) = isPlacingCueBall g"
  "scale (respotColoredBall i g) = scale g"
  "offsetX (respotColoredBall i g) = offsetX g"
  "offsetY (respotColoredBall i g) = offsetY g"
  "pockets (respotColoredBall i g) = pockets g"
  "length (balls (ballManager (respotColoredBall i g))) = length (balls (ballManager g))"
  by (simp_all add: respotColoredBall_def Let_def split: option.split)

lemma handleBallPotted_white:
  assumes "colorName (balls (ballManager g) ! i) = White"
  shows "scoreManager (handleBallPotted now i g) = recordFoul ''Cue ball potted'' 4 now (scoreManager g)"
    and "isPlacingCueBall (handleBallPotted now i g)"
    and "lastPottedBall (handleBallPotted now i g) = Some White"
    and "consecutiveColoredPotted (handleBallPotted now i g) = consecutiveColoredPotted g"
    and "balls (ballManager (handleBallPotted now i g)) =
          (balls (ballManager g))[i := (balls (ballManager g) ! i)\<lparr>isPotted := True,
              body := worldRemove (body (balls (ballManager g) ! i))\<rparr>]"
  using assms by (simp_all add: handleBallPotted_def Let_def updateBall_def)

lemma handleBallPotted_red:
  assumes "colorName (balls (ballManager g) ! i) = Red"
  shows "scoreManager (handleBallPotted now i g) = recordBallPotted Red now (scoreManager g)"
    and "isPlacingCueBall (handleBallPotted now i g) = isPlacingCueBall g"
    and "lastPottedBall (handleBallPotted now i g) = Some Red"
    and "consecutiveColoredPotted (handleBallPotted now i g) = 0"
    and "balls (ballManager (handleBallPotted now i g)) =
          (balls (ballManager g))[i := (balls (ballManager g) ! i)\<lparr>isPotted := True,
              body := worldRemove (body (balls (ballManager g) ! i))\<rparr>]"
  using assms by (simp_all add: handleBallPotted_def Let_def updateBall_def)

lemma handleBallPotted_coloured_sm:
  assumes "isColoured (colorName (balls (ballManager g) ! i))"
  shows "scoreManager (handleBallPotted now i g) =
     (if (case lastPottedBall g of Some l \<Rightarrow> isColoured l | None \<Rightarrow> False)
          \<and> consecutiveColoredPotted g + 1 \<ge> 2
      then recordFoul ''Two consecutive colored balls potted'' 4 now
             (recordBallPotted (colorName (balls (ballManager g) ! i)) now (scoreManager g))
      else recordBallPotted (colorName (balls (ballManager g) ! i)) now (scoreManager g))"
    and "consecutiveColoredPotted (handleBallPotted now i g) =
     (if (case lastPottedBall g of Some l \<Rightarrow> isColoured l | None \<Rightarrow> False)
      then consecutiveColoredPotted g + 1 else 1)"
    and "lastPottedBall (handleBallPotted now i g) = Some (colorName (balls (ballManager g) ! i))"
    and "isPlacingCueBall (handleBallPotted now i g) = isPlacingCueBall g"
  using assms by (auto simp add: handleBallPotted_def Let_def isColoured_def split: option.split)

subsection \<open>Placement predicates\<close>

lemma sqrt_less_iff_sq: "0 \<le> r \<Longrightarrow> (sqrt a < r) = (a < r * r)" for a r :: real
  by (metis abs_of_nonneg real_sqrt_abs2 real_sqrt_less_iff)

lemma sqrt_le_iff_sq: "0 \<le> r \<Longrightarrow> (sqrt a \<le> r) = (a \<le> r * r)" for a r :: real
  by (metis abs_of_nonneg real_sqrt_abs2 real_sqrt_le_iff)

lemma distp5_less_iff:
  "0 \<le> r \<Longrightarrow> (distp5 x1 y1 x2 y2 < r) = ((x2 - x1) * (x2 - x1) + (y2 - y1) * (y2 - y1) < r * r)"
  by (simp add: distp5_def sqrt_less_iff_sq)

lemma distp5_ge_iff:
  "0 \<le> r \<Longrightarrow> (\<not> distp5 x1 y1 x2 y2 < r) = (r * r \<le> (x2 - x1) * (x2 - x1) + (y2 - y1) * (y2 - y1))"
  by (simp add: distp5_less_iff not_less)

lemma validAgainst_iff:
  "validAgainst x y bs \<longleftrightarrow> (\<forall>b \<in> set bs. minDistance \<le> distp5 x y (ballX b) (ballY b))"
  by (induction bs) (auto simp add: not_less)

text \<open>
  Claim C8, as amended. \<^verbatim>\<open>isValidPosition(x, y)\<close> is true if and only if the distance from
  \<open>(x, y)\<close> to the centre of every ball record of the rack is at least 5.0. Every record
  counts, potted or not (a potted ball at the last position of its body), and a distance
  of exactly 5.0 is accepted.
\<close>

theorem isValidPosition_iff:
  "isValidPosition bm x y \<longleftrightarrow> (\<forall>b \<in> set (balls bm). 5 \<le> distp5 x y (ballX b) (ballY b))"
  using validAgainst_iff [of x y "balls bm"] by (simp add: isValidPosition_def minDistance_def)

lemma newBall_xy [simp]:
  "sc \<noteq> 0 \<Longrightarrow> ballX (newBall x y cn bid sc ox oy su) = x"
  "sc \<noteq> 0 \<Longrightarrow> ballY (newBall x y cn bid sc ox oy su) = y"
  by (simp_all add: ballX_def ballY_def newBall_def worldAdd_def bodiesCircle_def)

lemma newBall_fields [simp]:
  "ballId (newBall x y cn bid sc ox oy su) = bid"
  "colorName (newBall x y cn bid sc ox oy su) = cn"
  "isPotted (newBall x y cn bid sc ox oy su) = False"
  "inWorld (body (newBall x y cn bid sc ox oy su)) = True"
  "position (body (newBall x y cn bid sc ox oy su)) = \<lparr>xc = ox + x * sc, yc = oy + y * sc\<rparr>"
  by (simp_all add: newBall_def worldAdd_def bodiesCircle_def)

theorem isValidPosition_witness:
  "isValidPosition (addBall 10 10 Red ''red0'' (newBallManager 1 0 0)) 15 10
   \<and> \<not> isValidPosition (addBall 10 10 Red ''red0'' (newBallManager 1 0 0)) 14 10"
  using isValidPosition_iff [of "addBall 10 10 Red ''red0'' (newBallManager 1 0 0)" 15 10]
        isValidPosition_iff [of "addBall 10 10 Red ''red0'' (newBallManager 1 0 0)" 14 10]
  by (simp add: addBall_def newBallManager_def distp5_def)

text \<open>
  The claim as stated fails twice: a potted ball next to the point makes the result false,
  and an active ball at distance exactly 5.0 leaves it true.
\<close>

theorem isValidPosition_counterexample:
  "isValidPosition
     \<lparr>bmScale = 1, bmOffsetX = 0, bmOffsetY = 0,
      balls = [(newBall 1 1 Red ''red0'' 1 0 0 False)
                 \<lparr>isPotted := True, body := worldRemove (body (newBall 1 1 Red ''red0'' 1 0 0 False))\<rparr>],
      isSettingUp = False\<rparr> 2 1 = False
   \<and> isValidPosition (addBall 10 10 Red ''red0'' (newBallManager 1 0 0)) 15 10 = True"
  by (simp add: isValidPosition_def addBall_def newBallManager_def distp5_def minDistance_def
        ballX_def ballY_def newBall_def worldAdd_def worldRemove_def bodiesCircle_def)

text \<open>
  Claim C2, as amended. \<^verbatim>\<open>isValidCueBallPosition(x, y)\<close> is true if and only if the point
  is within the D radius 14.5 of the D centre \<open>(44.5, 44.5)\<close>, \<open>x\<close> is at most the baulk line
  44.5, and the point also passes \<^verbatim>\<open>isValidPosition\<close>: no ball of the rack is closer than 5.0.
\<close>

theorem isValidCueBallPosition_iff:
  "isValidCueBallPosition g x y \<longleftrightarrow>
     distp5 x y 44.5 44.5 \<le> 14.5 \<and> x \<le> 44.5 \<and> isValidPosition (ballManager g) x y"
proof -
  have "(44.5 - x) * (44.5 - x) + (44.5 - y) * (44.5 - y)
      = (x - 44.5) * (x - 44.5) + (y - 44.5) * (y - 44.5)"
    by (simp add: algebra_simps)
  then have eq: "distp5 x y 44.5 44.5 = sqrt ((x - 44.5) * (x - 44.5) + (y - 44.5) * (y - 44.5))"
    unfolding distp5_def by simp
  show ?thesis
    unfolding isValidCueBallPosition_def Let_def eq by auto
qed

subsection \<open>Cue-ball records\<close>

lemma cueRecords_ids: "cueRecords bm = length (filter (\<lambda>s. s = ''cue'') (ballIds bm))"
  by (simp add: cueRecords_def ballIds_def filter_map comp_def)

lemma ballIds_addBall: "ballIds (addBall x y cn bid bm) = ballIds bm @ [bid]"
  by (simp add: ballIds_def addBall_def)

lemma redId_not_cue: "redId i \<noteq> ''cue''"
  by (simp add: redId_def)

lemma cueRecords_addBall: "bid \<noteq> ''cue'' \<Longrightarrow> cueRecords (addBall x y cn bid bm) = cueRecords bm"
  by (simp add: cueRecords_ids ballIds_addBall)

lemma cueRecords_addReds: "cueRecords (addReds ps k bm) = cueRecords bm"
  by (induction ps k bm rule: addReds.induct) (simp_all add: cueRecords_addBall redId_not_cue)

lemma cueRecords_addColoredBalls: "cueRecords (addColoredBalls bm) = cueRecords bm"
  by (simp add: addColoredBalls_def cueRecords_addBall)

lemma cueRecords_clear: "cueRecords ((clearBalls bm)\<lparr>isSettingUp := v\<rparr>) = 0"
  by (simp add: cueRecords_def clearBalls_def)

lemma cueRecords_setupStartingPositions: "cueRecords (setupStartingPositions False bm) = 0"
  by (simp add: setupStartingPositions_def Let_def cueRecords_addColoredBalls cueRecords_addReds
        cueRecords_clear)

lemma cueRecords_addCueBall: "cueRecords (addCueBall x y e bm) = 1"
proof (cases "getCueBall bm")
  case None
  then have "filter (\<lambda>b. ballId b = ''cue'') (balls bm) = []"
    by (simp add: getCueBall_def find_None_iff filter_empty_conv)
  with None show ?thesis
    by (simp add: addCueBall_def cueRecords_def Let_def)
next
  case (Some c)
  then show ?thesis
    by (simp add: addCueBall_def cueRecords_def Let_def)
qed

lemma cueRecords_addRandomReds:
  "addRandomReds rnd k is bm = Some (bm', k') \<Longrightarrow> cueRecords bm' = cueRecords bm"
proof (induction "is" arbitrary: k bm)
  case Nil
  then show ?case by simp
next
  case (Cons i "is")
  then show ?case
    by (auto split: option.splits simp add: cueRecords_addBall redId_not_cue)
qed

lemma cueRecords_setupRandomReds:
  "setupRandomReds False rnd bm = Some (bm', k') \<Longrightarrow> cueRecords bm' = 0"
  by (auto simp add: setupRandomReds_def Let_def cueRecords_addColoredBalls cueRecords_clear
        dest!: cueRecords_addRandomReds)

lemma cueRecords_placeAll:
  "\<forall>(cn, bid) \<in> set todo. bid \<noteq> ''cue'' \<Longrightarrow> cueRecords (fst (placeAll rnd k todo bm)) = cueRecords bm"
proof (induction todo arbitrary: k bm)
  case Nil
  then show ?case by simp
next
  case (Cons a todo)
  obtain cn bid where a: "a = (cn, bid)" by (cases a)
  obtain r k' where t: "tryPlace rnd k 100 bm = (r, k')" by (cases "tryPlace rnd k 100 bm")
  from Cons.prems a have nc: "bid \<noteq> ''cue''" and rest: "\<forall>(cn, bid) \<in> set todo. bid \<noteq> ''cue''"
    by auto
  show ?case
    using Cons.IH [OF rest] nc
    by (cases r) (simp_all add: a t cueRecords_addBall)
qed

lemma ballsToAdd_not_cue: "\<forall>(cn, bid) \<in> set ballsToAdd. bid \<noteq> ''cue''"
  by (auto simp add: ballsToAdd_def redId_not_cue)

lemma cueRecords_setupRandomAll: "cueRecords (fst (setupRandomAll False rnd bm)) = 0"
  by (simp add: setupRandomAll_def Let_def cueRecords_placeAll [OF ballsToAdd_not_cue] cueRecords_clear)

lemma calc1600: "calculateScale 1600 805 = (5, 355, 180)"
  by (simp add: calculateScale_def Let_def tableWidth_def tableHeight_def)

lemma balls_addColoredBalls:
  "balls (addColoredBalls bm) = balls bm @
     [newBall pinkX 44.5 Pink ''pink'' (bmScale bm) (bmOffsetX bm) (bmOffsetY bm) (isSettingUp bm),
      newBall 89 44.5 Blue ''blue'' (bmScale bm) (bmOffsetX bm) (bmOffsetY bm) (isSettingUp bm),
      newBall 44.5 44.5 Brown ''brown'' (bmScale bm) (bmOffsetX bm) (bmOffsetY bm) (isSettingUp bm),
      newBall 44.5 33.375 Green ''green'' (bmScale bm) (bmOffsetX bm) (bmOffsetY bm) (isSettingUp bm),
      newBall 44.5 55.625 Yellow ''yellow'' (bmScale bm) (bmOffsetX bm) (bmOffsetY bm) (isSettingUp bm),
      newBall 164 44.5 Black ''black'' (bmScale bm) (bmOffsetX bm) (bmOffsetY bm) (isSettingUp bm)]"
  by (simp add: addColoredBalls_def addBall_def)

lemma addBall_frame [simp]:
  "bmScale (addBall x y cn bid bm) = bmScale bm"
  "bmOffsetX (addBall x y cn bid bm) = bmOffsetX bm"
  "bmOffsetY (addBall x y cn bid bm) = bmOffsetY bm"
  "isSettingUp (addBall x y cn bid bm) = isSettingUp bm"
  by (simp_all add: addBall_def)

lemma addReds_frame [simp]:
  "bmScale (addReds ps k bm) = bmScale bm"
  "bmOffsetX (addReds ps k bm) = bmOffsetX bm"
  "bmOffsetY (addReds ps k bm) = bmOffsetY bm"
  "isSettingUp (addReds ps k bm) = isSettingUp bm"
  by (induction ps k bm rule: addReds.induct) simp_all

lemma brown_in_start:
  "newBall 44.5 44.5 Brown ''brown'' (bmScale bm) (bmOffsetX bm) (bmOffsetY bm) True
     \<in> set (balls (setupStartingPositions False bm))"
  by (simp add: setupStartingPositions_def Let_def balls_addColoredBalls clearBalls_def)

text \<open>
  The claim as stated fails on the opening layout: the D centre lies in the D zone, but the
  brown ball sits on it.
\<close>

theorem isValidCueBallPosition_counterexample:
  "isValidCueBallPosition (newGame 1600 805 0) 44.5 44.5 = False
   \<and> sqrt ((44.5 - 44.5) * (44.5 - 44.5) + (44.5 - 44.5) * (44.5 - 44.5)) \<le> (14.5 :: real)
   \<and> (44.5 :: real) \<le> 44.5"
proof -
  let ?bm = "newBallManager 5 355 180"
  let ?b = "newBall 44.5 44.5 Brown ''brown'' 5 355 180 True"
  have "?b \<in> set (balls (setupStartingPositions False ?bm))"
    using brown_in_start [of ?bm] by (simp add: newBallManager_def)
  moreover have "distp5 44.5 44.5 (ballX ?b) (ballY ?b) < minDistance"
    by (simp add: distp5_def minDistance_def)
  ultimately have "\<not> validAgainst 44.5 44.5 (balls (setupStartingPositions False ?bm))"
    unfolding validAgainst_iff by (metis not_le)
  then show ?thesis
    by (simp add: isValidCueBallPosition_def Let_def newGame_def calc1600 initializeGame_def
          isValidPosition_def)
qed

subsection \<open>Fouls raised by the pot handler\<close>

lemma recordBallPotted_scores:
  "currentPlayer (recordBallPotted cn now s) = currentPlayer s"
  "scoreOf (recordBallPotted cn now s) (currentPlayer s) = scoreOf s (currentPlayer s) + pointsOf cn"
  "scoreOf (recordBallPotted cn now s) (opponentOf (currentPlayer s)) = scoreOf s (opponentOf (currentPlayer s))"
  "ballsPottedTotal (stats (recordBallPotted cn now s)) = ballsPottedTotal (stats s) + 1"
  "shotBallsPotted (currentShot (recordBallPotted cn now s)) = shotBallsPotted (currentShot s) @ [cn]"
  "fouls (stats (recordBallPotted cn now s)) = fouls (stats s)"
  by (cases cn; simp add: recordBallPotted_def Let_def scoreOf_def opponentOf_def pointsOf_def
        split: option.split)+

lemma pointsOf_coloured: "isColoured cn \<Longrightarrow> 2 \<le> pointsOf cn"
  by (cases cn) (simp_all add: isColoured_def pointsOf_def)

lemma recordFoul_scores:
  "currentPlayer (recordFoul reason p now s) = opponentOf (currentPlayer s)"
  "scoreOf (recordFoul reason p now s) (opponentOf (currentPlayer s))
     = scoreOf s (opponentOf (currentPlayer s)) + max 4 p"
  "scoreOf (recordFoul reason p now s) (currentPlayer s) = scoreOf s (currentPlayer s)"
  "fouls (stats (recordFoul reason p now s)) = fouls (stats s) + 1"
  "ballsPottedTotal (stats (recordFoul reason p now s)) = ballsPottedTotal (stats s)"
  "shotBallsPotted (currentShot (recordFoul reason p now s)) = shotBallsPotted (currentShot s)"
  "currentBreak (stats (recordFoul reason p now s)) = 0"
  "isValid (currentShot (recordFoul reason p now s)) = False"
  by (simp_all add: recordFoul_def Let_def scoreOf_def opponentOf_def)

lemma opponentOf_neq: "opponentOf p \<noteq> p"
  by (simp add: opponentOf_def)

text \<open>
  Claim C6. Whenever the cue (white) ball is potted, the handler records a foul: the
  opponent of the current player gains 4 points, the current player is switched to the
  opponent, the flag \<^verbatim>\<open>isPlacingCueBall\<close> becomes true, and no pot is recorded for the player
  who potted it (score, pot count and the shot's list of potted balls are unchanged). The
  ball is marked potted and its body is out of the world.
\<close>

theorem cue_ball_potted_is_foul:
  assumes "i < length (balls (ballManager g))"
    and "colorName (balls (ballManager g) ! i) = White"
  shows "scoreManager (handleBallPotted now i g)
           = recordFoul ''Cue ball potted'' 4 now (scoreManager g)
    \<and> scoreOf (scoreManager (handleBallPotted now i g)) (opponentOf (currentPlayer (scoreManager g)))
           = scoreOf (scoreManager g) (opponentOf (currentPlayer (scoreManager g))) + 4
    \<and> scoreOf (scoreManager (handleBallPotted now i g)) (currentPlayer (scoreManager g))
           = scoreOf (scoreManager g) (currentPlayer (scoreManager g))
    \<and> currentPlayer (scoreManager (handleBallPotted now i g)) = opponentOf (currentPlayer (scoreManager g))
    \<and> opponentOf (currentPlayer (scoreManager g)) \<noteq> currentPlayer (scoreManager g)
    \<and> fouls (stats (scoreManager (handleBallPotted now i g))) = fouls (stats (scoreManager g)) + 1
    \<and> ballsPottedTotal (stats (scoreManager (handleBallPotted now i g)))
           = ballsPottedTotal (stats (scoreManager g))
    \<and> shotBallsPotted (currentShot (scoreManager (handleBallPotted now i g)))
           = shotBallsPotted (currentShot (scoreManager g))
    \<and> isPlacingCueBall (handleBallPotted now i g)
    \<and> isPotted (balls (ballManager (handleBallPotted now i g)) ! i)
    \<and> \<not> inWorld (body (balls (ballManager (handleBallPotted now i g)) ! i))"
  using assms
  by (simp add: handleBallPotted_white recordFoul_scores opponentOf_neq worldRemove_def)

text \<open>
  Claim C10. Whenever a colour (not red, not white) is potted, the ball potted before it
  was a colour too, and the counter of consecutive colours reaches 2, the handler runs the
  whole foul routine in the same call: after the pot is recorded, \<^verbatim>\<open>recordFoul\<close> gives
  the opponent 4 points and switches the current player, and the points of the potted
  colour stay with the player who potted it.
\<close>

theorem consecutive_colours_foul:
  assumes "i < length (balls (ballManager g))"
    and "isColoured (colorName (balls (ballManager g) ! i))"
    and "lastPottedBall g = Some l" and "isColoured l"
    and "2 \<le> consecutiveColoredPotted g + 1"
  shows "scoreManager (handleBallPotted now i g)
           = recordFoul ''Two consecutive colored balls potted'' 4 now
               (recordBallPotted (colorName (balls (ballManager g) ! i)) now (scoreManager g))
    \<and> scoreOf (scoreManager (handleBallPotted now i g)) (opponentOf (currentPlayer (scoreManager g)))
           = scoreOf (scoreManager g) (opponentOf (currentPlayer (scoreManager g))) + 4
    \<and> scoreOf (scoreManager (handleBallPotted now i g)) (currentPlayer (scoreManager g))
           = scoreOf (scoreManager g) (currentPlayer (scoreManager g))
               + pointsOf (colorName (balls (ballManager g) ! i))
    \<and> 2 \<le> pointsOf (colorName (balls (ballManager g) ! i))
    \<and> currentPlayer (scoreManager (handleBallPotted now i g)) = opponentOf (currentPlayer (scoreManager g))
    \<and> opponentOf (currentPlayer (scoreManager g)) \<noteq> currentPlayer (scoreManager g)
    \<and> fouls (stats (scoreManager (handleBallPotted now i g))) = fouls (stats (scoreManager g)) + 1
    \<and> currentBreak (stats (scoreManager (handleBallPotted now i g))) = 0
    \<and> consecutiveColoredPotted (handleBallPotted now i g) = consecutiveColoredPotted g + 1"
proof -
  let ?cn = "colorName (balls (ballManager g) ! i)"
  let ?s1 = "recordBallPotted ?cn now (scoreManager g)"
  have sm: "scoreManager (handleBallPotted now i g)
      = recordFoul ''Two consecutive colored balls potted'' 4 now ?s1"
    using assms by (simp add: handleBallPotted_coloured_sm)
  have cp: "currentPlayer ?s1 = currentPlayer (scoreManager g)"
    by (simp add: recordBallPotted_scores)
  have cnt: "consecutiveColoredPotted (handleBallPotted now i g) = consecutiveColoredPotted g + 1"
    using assms by (simp add: handleBallPotted_coloured_sm)
  show ?thesis
    unfolding sm
    using recordFoul_scores [of "''Two consecutive colored balls potted''" 4 now ?s1]
      recordBallPotted_scores [of ?cn now "scoreManager g"] pointsOf_coloured [OF assms(2)] cnt
    by (simp add: cp opponentOf_neq)
qed


lemma newGame_fields:
  "scoreManager (newGame w h now) = newScoreManager now"
  "lastPottedBall (newGame w h now) = None"
  "consecutiveColoredPotted (newGame w h now) = 0"
  "isPlacingCueBall (newGame w h now) = True"
  "pockets (newGame w h now) = createPockets tableWidth tableHeight"
  "scale (newGame w h now) = fst (calculateScale w h)"
  "offsetX (newGame w h now) = fst (snd (calculateScale w h))"
  "offsetY (newGame w h now) = snd (snd (calculateScale w h))"
  "isPaused (newGame w h now) = False"
  "ballsMoving (newGame w h now) = False"
  "collisionReports (newGame w h now) = []"
  by (simp_all add: newGame_def initializeGame_def split: prod.split)

theorem cue_ball_potted_is_foul_witness:
  "0 < length (balls (ballManager
         ((newGame 1600 805 0)\<lparr>ballManager := addCueBall 30 44.5 True (newBallManager 5 355 180)\<rparr>)))
   \<and> colorName (balls (ballManager
         ((newGame 1600 805 0)\<lparr>ballManager := addCueBall 30 44.5 True (newBallManager 5 355 180)\<rparr>)) ! 0)
       = White
   \<and> player2Score (scoreManager (handleBallPotted 0 0
         ((newGame 1600 805 0)\<lparr>ballManager := addCueBall 30 44.5 True (newBallManager 5 355 180)\<rparr>))) = 4
   \<and> player1Score (scoreManager (handleBallPotted 0 0
         ((newGame 1600 805 0)\<lparr>ballManager := addCueBall 30 44.5 True (newBallManager 5 355 180)\<rparr>))) = 0
   \<and> currentPlayer (scoreManager (handleBallPotted 0 0
         ((newGame 1600 805 0)\<lparr>ballManager := addCueBall 30 44.5 True (newBallManager 5 355 180)\<rparr>))) = 2
   \<and> isPlacingCueBall (handleBallPotted 0 0
         ((newGame 1600 805 0)\<lparr>ballManager := addCueBall 30 44.5 True (newBallManager 5 355 180)\<rparr>))"
proof -
  let ?g = "(newGame 1600 805 0)\<lparr>ballManager := addCueBall 30 44.5 True (newBallManager 5 355 180)\<rparr>"
  have bs: "balls (ballManager ?g) = [newBall 30 44.5 White ''cue'' 5 355 180 False]"
    by (simp add: addCueBall_def newBallManager_def getCueBall_def Let_def)
  have h1: "0 < length (balls (ballManager ?g))"
    unfolding bs by simp
  have h2: "colorName (balls (ballManager ?g) ! 0) = White"
    unfolding bs by simp
  have "player2Score (scoreManager (handleBallPotted 0 0 ?g)) = 4
      \<and> player1Score (scoreManager (handleBallPotted 0 0 ?g)) = 0
      \<and> currentPlayer (scoreManager (handleBallPotted 0 0 ?g)) = 2
      \<and> isPlacingCueBall (handleBallPotted 0 0 ?g)"
    using cue_ball_potted_is_foul [OF h1 h2, of 0, THEN conjunct2]
    by (simp add: newGame_fields scoreOf_def opponentOf_def newScoreManager_def)
  with h1 h2 show ?thesis
    by blast
qed

theorem consecutive_colours_foul_witness:
  "0 < length (balls (ballManager
         ((newGame 1600 805 0)\<lparr>ballManager := addColoredBalls (newBallManager 5 355 180),
            lastPottedBall := Some Blue, consecutiveColoredPotted := 1\<rparr>)))
   \<and> colorName (balls (ballManager
         ((newGame 1600 805 0)\<lparr>ballManager := addColoredBalls (newBallManager 5 355 180),
            lastPottedBall := Some Blue, consecutiveColoredPotted := 1\<rparr>)) ! 0) = Pink
   \<and> player1Score (scoreManager (handleBallPotted 0 0
         ((newGame 1600 805 0)\<lparr>ballManager := addColoredBalls (newBallManager 5 355 180),
            lastPottedBall := Some Blue, consecutiveColoredPotted := 1\<rparr>))) = 6
   \<and> player2Score (scoreManager (handleBallPotted 0 0
         ((newGame 1600 805 0)\<lparr>ballManager := addColoredBalls (newBallManager 5 355 180),
            lastPottedBall := Some Blue, consecutiveColoredPotted := 1\<rparr>))) = 4
   \<and> currentPlayer (scoreManager (handleBallPotted 0 0
         ((newGame 1600 805 0)\<lparr>ballManager := addColoredBalls (newBallManager 5 355 180),
            lastPottedBall := Some Blue, consecutiveColoredPotted := 1\<rparr>))) = 2
   \<and> consecutiveColoredPotted (handleBallPotted 0 0
         ((newGame 1600 805 0)\<lparr>ballManager := addColoredBalls (newBallManager 5 355 180),
            lastPottedBall := Some Blue, consecutiveColoredPotted := 1\<rparr>)) = 2"
proof -
  let ?g = "(newGame 1600 805 0)\<lparr>ballManager := addColoredBalls (newBallManager 5 355 180),
            lastPottedBall := Some Blue, consecutiveColoredPotted := 1\<rparr>"
  have h1: "0 < length (balls (ballManager ?g))"
    by (simp add: balls_addColoredBalls)
  have cn: "colorName (balls (ballManager ?g) ! 0) = Pink"
    by (simp add: balls_addColoredBalls newBallManager_def)
  have h2: "isColoured (colorName (balls (ballManager ?g) ! 0))"
    unfolding cn by (simp add: isColoured_def)
  have h3: "lastPottedBall ?g = Some Blue" by simp
  have h4: "isColoured Blue" by (simp add: isColoured_def)
  have h5: "2 \<le> consecutiveColoredPotted ?g + 1" by simp
  have "player1Score (scoreManager (handleBallPotted 0 0 ?g)) = 6
      \<and> player2Score (scoreManager (handleBallPotted 0 0 ?g)) = 4
      \<and> currentPlayer (scoreManager (handleBallPotted 0 0 ?g)) = 2
      \<and> consecutiveColoredPotted (handleBallPotted 0 0 ?g) = 2"
    using consecutive_colours_foul [OF h1 h2 h3 h4 h5, of 0, THEN conjunct2]
    by (simp add: cn [simplified] newGame_fields scoreOf_def opponentOf_def newScoreManager_def pointsOf_def)
  with h1 cn show ?thesis
    by blast
qed

subsection \<open>The pocket loop\<close>

lemma attract_fields [simp]:
  "position (attract g p bd) = position bd"
  "inWorld (attract g p bd) = inWorld bd"
  "isSensor (attract g p bd) = isSensor bd"
  by (simp_all add: attract_def Let_def applyForce_def setVelocity_def)

lemma attractStep_fields [simp]:
  "scoreManager (attractStep bx by i g p) = scoreManager g"
  "lastPottedBall (attractStep bx by i g p) = lastPottedBall g"
  "consecutiveColoredPotted (attractStep bx by i g p) = consecutiveColoredPotted g"
  "isPlacingCueBall (attractStep bx by i g p) = isPlacingCueBall g"
  "scale (attractStep bx by i g p) = scale g"
  "offsetX (attractStep bx by i g p) = offsetX g"
  "offsetY (attractStep bx by i g p) = offsetY g"
  "pockets (attractStep bx by i g p) = pockets g"
  "collisionReports (attractStep bx by i g p) = collisionReports g"
  "length (balls (ballManager (attractStep bx by i g p))) = length (balls (ballManager g))"
  by (simp_all add: attractStep_def)

lemma attractStep_nth:
  "balls (ballManager (attractStep bx by i g p)) ! j =
     (if j = i \<and> i < length (balls (ballManager g)) \<and> inAttractionZone bx by p
      then (balls (ballManager g) ! i)\<lparr>body := attract g p (body (balls (ballManager g) ! i))\<rparr>
      else balls (ballManager g) ! j)"
  by (cases "i < length (balls (ballManager g))")
     (auto simp add: attractStep_def updateBall_def nth_list_update list_update_beyond)

lemma checkPockets_step:
  "checkPockets bx by now i (p # ps) g =
     (if inCaptureRange bx by p then handleBallPotted now i (attractStep bx by i g p)
      else checkPockets bx by now i ps (attractStep bx by i g p))"
  by (simp add: Let_def inCaptureRange_def attractStep_def inAttractionZone_def)

lemma checkPockets_no_capture:
  "\<forall>p \<in> set ps. \<not> inCaptureRange bx by p \<Longrightarrow>
     checkPockets bx by now i ps g = foldl (attractStep bx by i) g ps"
  by (induction ps arbitrary: g) (simp_all add: checkPockets_step del: checkPockets.simps(2))

lemma checkPockets_capture:
  "\<exists>p \<in> set ps. inCaptureRange bx by p \<Longrightarrow>
     checkPockets bx by now i ps g =
       handleBallPotted now i (foldl (attractStep bx by i) g (pocketsTried bx by ps))"
proof (induction ps arbitrary: g)
  case Nil
  then show ?case by simp
next
  case (Cons p ps)
  show ?case
  proof (cases "inCaptureRange bx by p")
    case True
    then show ?thesis
      by (simp add: checkPockets_step pocketsTried_def del: checkPockets.simps(2))
  next
    case False
    with Cons.prems have "\<exists>p \<in> set ps. inCaptureRange bx by p" by simp
    from Cons.IH [OF this] False show ?thesis
      by (simp add: checkPockets_step pocketsTried_def del: checkPockets.simps(2))
  qed
qed

lemma checkBall_eq:
  "checkBall now i g =
     (if isPotted (balls (ballManager g) ! i) then g
      else checkPockets (gameX g (balls (ballManager g) ! i)) (gameY g (balls (ballManager g) ! i))
             now i (pockets g) g)"
  by (simp add: checkBall_def Let_def gameX_def gameY_def)

lemma foldl_attractStep_fields [simp]:
  "scoreManager (foldl (attractStep bx by i) g ps) = scoreManager g"
  "lastPottedBall (foldl (attractStep bx by i) g ps) = lastPottedBall g"
  "consecutiveColoredPotted (foldl (attractStep bx by i) g ps) = consecutiveColoredPotted g"
  "isPlacingCueBall (foldl (attractStep bx by i) g ps) = isPlacingCueBall g"
  "scale (foldl (attractStep bx by i) g ps) = scale g"
  "offsetX (foldl (attractStep bx by i) g ps) = offsetX g"
  "offsetY (foldl (attractStep bx by i) g ps) = offsetY g"
  "pockets (foldl (attractStep bx by i) g ps) = pockets g"
  "collisionReports (foldl (attractStep bx by i) g ps) = collisionReports g"
  "length (balls (ballManager (foldl (attractStep bx by i) g ps))) = length (balls (ballManager g))"
  by (induction ps arbitrary: g; simp)+

lemma sameButMotion_refl: "sameButMotion b b"
  by (simp add: sameButMotion_def)

lemma sameButMotion_attract:
  "sameButMotion b b' \<Longrightarrow> sameButMotion b (b'\<lparr>body := attract g p (body b')\<rparr>)"
proof -
  assume "sameButMotion b b'"
  then have "b' = b\<lparr>body := (body b)\<lparr>velocity := velocity (body b'), force := force (body b')\<rparr>\<rparr>"
    by (simp add: sameButMotion_def)
  then obtain v f where b': "b' = b\<lparr>body := (body b)\<lparr>velocity := v, force := f\<rparr>\<rparr>"
    by blast
  show ?thesis
    by (simp add: b' sameButMotion_def attract_def Let_def applyForce_def setVelocity_def)
qed

lemma foldl_attractStep_nth:
  "balls (ballManager (foldl (attractStep bx by i) g ps)) ! j = balls (ballManager g) ! j \<or>
   (j = i \<and> sameButMotion (balls (ballManager g) ! j) (balls (ballManager (foldl (attractStep bx by i) g ps)) ! j))"
proof (induction ps rule: rev_induct)
  case Nil
  then show ?case by simp
next
  case (snoc p ps)
  then show ?case
    by (auto simp add: attractStep_nth sameButMotion_attract sameButMotion_refl)
qed

lemma handleBallPotted_frame [simp]:
  "scale (handleBallPotted now i g) = scale g"
  "offsetX (handleBallPotted now i g) = offsetX g"
  "offsetY (handleBallPotted now i g) = offsetY g"
  "pockets (handleBallPotted now i g) = pockets g"
  "length (balls (ballManager (handleBallPotted now i g))) = length (balls (ballManager g))"
  "lastPottedBall (handleBallPotted now i g) = Some (colorName (balls (ballManager g) ! i))"
  by (simp_all add: handleBallPotted_def Let_def)

lemma respot_other:
  "j \<noteq> i \<Longrightarrow> balls (ballManager (respotColoredBall i g)) ! j = balls (ballManager g) ! j"
  by (simp add: respotColoredBall_def Let_def updateBall_def split: option.split)

lemma handleBallPotted_other:
  "j \<noteq> i \<Longrightarrow> balls (ballManager (handleBallPotted now i g)) ! j = balls (ballManager g) ! j"
  by (simp add: handleBallPotted_def Let_def respot_other updateBall_def)

lemma respot_ball:
  assumes "i < length (balls (ballManager g))"
    and "isPotted (balls (ballManager g) ! i)" and "\<not> inWorld (body (balls (ballManager g) ! i))"
  shows "pottedOrRespotted g (balls (ballManager (respotColoredBall i g)) ! i)"
  using assms
  by (simp add: respotColoredBall_def Let_def updateBall_def pottedOrRespotted_def respotBody_def
        worldAdd_def bodiesCircle_def split: option.split)

lemma pottedOrRespotted_cong:
  "scale g' = scale g \<Longrightarrow> offsetX g' = offsetX g \<Longrightarrow> offsetY g' = offsetY g \<Longrightarrow>
     pottedOrRespotted g' b = pottedOrRespotted g b"
  by (simp add: pottedOrRespotted_def cong: option.case_cong)

lemma handleBallPotted_ball:
  assumes "i < length (balls (ballManager g))"
  shows "pottedOrRespotted g (balls (ballManager (handleBallPotted now i g)) ! i)"
proof (cases "isColoured (colorName (balls (ballManager g) ! i))")
  case False
  then show ?thesis
    using assms
    by (auto simp add: handleBallPotted_def Let_def isColoured_def updateBall_def
          pottedOrRespotted_def worldRemove_def)
next
  case True
  define g1 where "g1 = updateBall i (\<lambda>b. b\<lparr>isPotted := True, body := worldRemove (body b)\<rparr>) g"
  have b1: "isPotted (balls (ballManager g1) ! i)" "\<not> inWorld (body (balls (ballManager g1) ! i))"
    using assms by (simp_all add: g1_def updateBall_def worldRemove_def)
  define cn where "cn = colorName (balls (ballManager g) ! i)"
  define gs where "gs = g1\<lparr>scoreManager := recordBallPotted cn now (scoreManager g1)\<rparr>"
  define g2 where "g2 =
     (if (case lastPottedBall gs of Some l \<Rightarrow> l \<noteq> Red \<and> l \<noteq> White | None \<Rightarrow> False)
      then (if consecutiveColoredPotted gs + 1 \<ge> 2
            then gs\<lparr>consecutiveColoredPotted := consecutiveColoredPotted gs + 1,
                   scoreManager := recordFoul ''Two consecutive colored balls potted'' 4 now
                                     (scoreManager gs)\<rparr>
            else gs\<lparr>consecutiveColoredPotted := consecutiveColoredPotted gs + 1\<rparr>)
      else gs\<lparr>consecutiveColoredPotted := 1\<rparr>)"
  have g2: "handleBallPotted now i g = (respotColoredBall i g2)\<lparr>lastPottedBall := Some cn\<rparr>"
    using True
    unfolding handleBallPotted_def Let_def isColoured_def g2_def gs_def g1_def cn_def
    by simp
  have bm: "ballManager g2 = ballManager g1"
    by (simp add: g2_def gs_def)
  have fr: "scale g2 = scale g" "offsetX g2 = offsetX g" "offsetY g2 = offsetY g"
    by (simp_all add: g2_def gs_def g1_def)
  have "pottedOrRespotted g2 (balls (ballManager (respotColoredBall i g2)) ! i)"
    using respot_ball [of i g2] b1 assms by (simp add: bm g1_def)
  then show ?thesis
    by (simp add: g2 pottedOrRespotted_cong [OF fr])
qed

lemma checkBall_cases:
  "checkBall now i g = g \<and> isPotted (balls (ballManager g) ! i)
   \<or> (\<not> isPotted (balls (ballManager g) ! i)
       \<and> (\<forall>p \<in> set (pockets g). \<not> inCaptureRange (gameX g (balls (ballManager g) ! i))
                                       (gameY g (balls (ballManager g) ! i)) p)
       \<and> checkBall now i g = foldl (attractStep (gameX g (balls (ballManager g) ! i))
                                       (gameY g (balls (ballManager g) ! i)) i) g (pockets g))
   \<or> (\<not> isPotted (balls (ballManager g) ! i)
       \<and> (\<exists>p \<in> set (pockets g). inCaptureRange (gameX g (balls (ballManager g) ! i))
                                       (gameY g (balls (ballManager g) ! i)) p)
       \<and> checkBall now i g = handleBallPotted now i
            (foldl (attractStep (gameX g (balls (ballManager g) ! i))
                                (gameY g (balls (ballManager g) ! i)) i) g
               (pocketsTried (gameX g (balls (ballManager g) ! i))
                             (gameY g (balls (ballManager g) ! i)) (pockets g))))"
proof (cases "isPotted (balls (ballManager g) ! i)")
  case True
  then show ?thesis by (simp add: checkBall_eq)
next
  case np: False
  let ?bx = "gameX g (balls (ballManager g) ! i)"
  let ?by = "gameY g (balls (ballManager g) ! i)"
  show ?thesis
  proof (cases "\<exists>p \<in> set (pockets g). inCaptureRange ?bx ?by p")
    case True
    from checkPockets_capture [OF this, of now i g] np True show ?thesis
      by (simp add: checkBall_eq)
  next
    case False
    then have "\<forall>p \<in> set (pockets g). \<not> inCaptureRange ?bx ?by p" by blast
    from checkPockets_no_capture [OF this, of now i g] np this show ?thesis
      by (simp add: checkBall_eq)
  qed
qed

lemma checkBall_frame [simp]:
  "scale (checkBall now i g) = scale g"
  "offsetX (checkBall now i g) = offsetX g"
  "offsetY (checkBall now i g) = offsetY g"
  "pockets (checkBall now i g) = pockets g"
  "length (balls (ballManager (checkBall now i g))) = length (balls (ballManager g))"
  using checkBall_cases [of now i g] by (elim disjE conjE; simp)+

lemma checkBall_other:
  assumes "j \<noteq> i"
  shows "balls (ballManager (checkBall now i g)) ! j = balls (ballManager g) ! j"
proof -
  have a: "balls (ballManager (foldl (attractStep bx by i) g ps)) ! j = balls (ballManager g) ! j"
    for bx "by" ps
    using foldl_attractStep_nth [of bx "by" i g ps j] assms by blast
  show ?thesis
    using checkBall_cases [of now i g]
    by (elim disjE conjE) (simp_all add: handleBallPotted_other [OF assms] a)
qed



lemma foldl_checkBall_frame [simp]:
  "scale (foldl (\<lambda>g i. checkBall now i g) g is) = scale g"
  "offsetX (foldl (\<lambda>g i. checkBall now i g) g is) = offsetX g"
  "offsetY (foldl (\<lambda>g i. checkBall now i g) g is) = offsetY g"
  "pockets (foldl (\<lambda>g i. checkBall now i g) g is) = pockets g"
  "length (balls (ballManager (foldl (\<lambda>g i. checkBall now i g) g is))) = length (balls (ballManager g))"
  by (induction "is" arbitrary: g; simp)+

lemma foldl_checkBall_other:
  "j \<notin> set is \<Longrightarrow>
     balls (ballManager (foldl (\<lambda>g i. checkBall now i g) g is)) ! j = balls (ballManager g) ! j"
  by (induction "is" arbitrary: g) (simp_all add: checkBall_other)

lemma checkPottedBalls_split:
  assumes "j < length (balls (ballManager g))"
  shows "checkPottedBalls now g =
     foldl (\<lambda>g i. checkBall now i g)
       (checkBall now j (foldl (\<lambda>g i. checkBall now i g) g [0..<j]))
       [Suc j..<length (balls (ballManager g))]"
proof -
  obtain k where k: "length (balls (ballManager g)) = j + k" and "0 < k"
    using assms by (metis less_imp_add_positive)
  then have "[0..<length (balls (ballManager g))] = [0..<j] @ j # [Suc j..<length (balls (ballManager g))]"
    using upt_add_eq_append [of 0 j k] upt_conv_Cons [of j "j + k"] by simp
  then show ?thesis
    by (simp add: checkPottedBalls_def)
qed

lemma checkPottedBalls_ball:
  assumes "j < length (balls (ballManager g))"
  shows "balls (ballManager (checkPottedBalls now g)) ! j =
     balls (ballManager (checkBall now j (foldl (\<lambda>g i. checkBall now i g) g [0..<j]))) ! j"
    and "balls (ballManager (foldl (\<lambda>g i. checkBall now i g) g [0..<j])) ! j = balls (ballManager g) ! j"
  by (simp_all add: checkPottedBalls_split [OF assms] foldl_checkBall_other)

lemma checkBall_capture:
  assumes "\<not> isPotted (balls (ballManager g) ! i)"
    and "p \<in> set (pockets g)"
    and "inCaptureRange (gameX g (balls (ballManager g) ! i)) (gameY g (balls (ballManager g) ! i)) p"
  shows "checkBall now i g = handleBallPotted now i
            (foldl (attractStep (gameX g (balls (ballManager g) ! i))
                                (gameY g (balls (ballManager g) ! i)) i) g
               (pocketsTried (gameX g (balls (ballManager g) ! i))
                             (gameY g (balls (ballManager g) ! i)) (pockets g)))"
proof -
  have "\<exists>p \<in> set (pockets g). inCaptureRange (gameX g (balls (ballManager g) ! i))
           (gameY g (balls (ballManager g) ! i)) p"
    using assms(2,3) by (rule bexI [rotated])
  from checkPockets_capture [OF this, of now i g] assms(1) show ?thesis
    by (simp add: checkBall_eq)
qed

lemma checkBall_capture_ball:
  assumes "i < length (balls (ballManager g))"
    and "\<not> isPotted (balls (ballManager g) ! i)"
    and "p \<in> set (pockets g)"
    and "inCaptureRange (gameX g (balls (ballManager g) ! i)) (gameY g (balls (ballManager g) ! i)) p"
  shows "pottedOrRespotted g (balls (ballManager (checkBall now i g)) ! i)"
proof -
  let ?g' = "foldl (attractStep (gameX g (balls (ballManager g) ! i))
                                (gameY g (balls (ballManager g) ! i)) i) g
               (pocketsTried (gameX g (balls (ballManager g) ! i))
                             (gameY g (balls (ballManager g) ! i)) (pockets g))"
  have "pottedOrRespotted ?g' (balls (ballManager (handleBallPotted now i ?g')) ! i)"
    using assms(1) by (intro handleBallPotted_ball) simp
  moreover have "pottedOrRespotted ?g' b = pottedOrRespotted g b" for b
    by (rule pottedOrRespotted_cong) simp_all
  ultimately show ?thesis
    by (simp add: checkBall_capture [OF assms(2-4)])
qed

lemma checkBall_capture_colour:
  assumes "\<not> isPotted (balls (ballManager g) ! i)"
    and "p \<in> set (pockets g)"
    and "inCaptureRange (gameX g (balls (ballManager g) ! i)) (gameY g (balls (ballManager g) ! i)) p"
  shows "lastPottedBall (checkBall now i g) = Some (colorName (balls (ballManager g) ! i))"
proof -
  have "colorName (balls (ballManager (foldl (attractStep bx by i) g ps)) ! i)
      = colorName (balls (ballManager g) ! i)" for bx "by" ps
  proof -
    have "sameButMotion b b' \<Longrightarrow> colorName b' = colorName b" for b b'
    proof -
      assume "sameButMotion b b'"
      then have "b' = b\<lparr>body := (body b)\<lparr>velocity := velocity (body b'), force := force (body b')\<rparr>\<rparr>"
        by (simp add: sameButMotion_def)
      then have "colorName b' = colorName (b\<lparr>body := (body b)\<lparr>velocity := velocity (body b'), force := force (body b')\<rparr>\<rparr>)"
        by (rule arg_cong)
      then show ?thesis by simp
    qed
    then show ?thesis
      using foldl_attractStep_nth [of bx "by" i g ps i] by auto
  qed
  then show ?thesis
    by (simp add: checkBall_capture [OF assms])
qed

lemma capture_zone:
  assumes "inCaptureRange bx by q"
  shows "inAttractionZone bx by q \<longleftrightarrow> pradius q * 0.3 < distp5 bx by (px q) (py q)"
proof -
  have "0 \<le> distp5 bx by (px q) (py q)"
    by (simp add: distp5_def)
  with assms have "distp5 bx by (px q) (py q) < pradius q * 2.2"
    by (simp add: inCaptureRange_def)
  then show ?thesis
    by (simp add: inAttractionZone_def)
qed

lemma pocketsTried_last:
  assumes "\<exists>p \<in> set ps. inCaptureRange bx by p"
  shows "pocketsTried bx by ps \<noteq> [] \<and> inCaptureRange bx by (last (pocketsTried bx by ps))
         \<and> last (pocketsTried bx by ps) \<in> set ps"
proof -
  let ?P = "\<lambda>p. \<not> inCaptureRange bx by p"
  from assms have "dropWhile ?P ps \<noteq> []"
    by (simp add: dropWhile_eq_Nil_conv)
  then obtain q qs where d: "dropWhile ?P ps = q # qs"
    by (cases "dropWhile ?P ps") auto
  then have "\<not> ?P q"
    using hd_dropWhile [of ?P ps] by (metis \<open>dropWhile ?P ps \<noteq> []\<close> list.sel(1))
  moreover have "q \<in> set ps"
    using d by (metis list.set_intros(1) set_dropWhileD)
  ultimately show ?thesis
    by (simp add: pocketsTried_def d)
qed

text \<open>
  Claim C1, as amended. For every ball that is not potted and every pocket: if the distance
  from the ball centre to the pocket centre is less than 0.85 times the pocket radius, the
  ball is captured in that pass: the round of the ball ends in \<^verbatim>\<open>handleBallPotted\<close>, which
  leaves it marked potted with its body out of the world, or respotted when it is a colour
  whose spot is free; this also holds for the ball after the whole pass over the balls. In
  each round of the pocket loop the attraction test comes first: the loop visits the
  pockets up to and including the first capturing one, and for every visited pocket in
  whose attraction zone the ball lies it adds the attraction force and damps the velocity
  before the capture test. The last visited pocket is the capturing one, and the ball is in
  its attraction zone exactly when it is farther than 0.3 times the radius from its centre;
  so only a ball within 0.3 times the radius is captured without that pocket's attraction.
\<close>

theorem pocket_capture:
  fixes g :: game and i :: nat
  defines "bx \<equiv> gameX g (balls (ballManager g) ! i)"
    and "by \<equiv> gameY g (balls (ballManager g) ! i)"
  defines "tried \<equiv> pocketsTried bx by (pockets g)"
  assumes nz: "scale g \<noteq> 0"
    and len: "i < length (balls (ballManager g))"
    and np: "\<not> isPotted (balls (ballManager g) ! i)"
    and inp: "p \<in> set (pockets g)"
    and near: "distp5 bx by (px p) (py p) < pradius p * 0.85"
  shows "checkBall now i g = handleBallPotted now i (foldl (attractStep bx by i) g tried)
    \<and> inCaptureRange bx by (last tried)
    \<and> inAttractionZone bx by (last tried)
        = (pradius (last tried) * 0.3 < distp5 bx by (px (last tried)) (py (last tried)))
    \<and> lastPottedBall (checkBall now i g) = Some (colorName (balls (ballManager g) ! i))
    \<and> pottedOrRespotted g (balls (ballManager (checkBall now i g)) ! i)
    \<and> pottedOrRespotted g (balls (ballManager (checkPottedBalls now g)) ! i)"
proof -
  let ?b = "balls (ballManager g) ! i"
  let ?bx = "gameX g ?b" and ?by = "gameY g ?b"
  have cap: "inCaptureRange ?bx ?by p"
    using near by (simp add: inCaptureRange_def bx_def by_def)
  have ex: "\<exists>p \<in> set (pockets g). inCaptureRange ?bx ?by p"
    using inp cap by blast
  note l = pocketsTried_last [OF ex]
  have c1: "checkBall now i g =
      handleBallPotted now i (foldl (attractStep ?bx ?by i) g (pocketsTried ?bx ?by (pockets g)))"
    by (rule checkBall_capture [OF np inp cap])
  have c2: "inCaptureRange ?bx ?by (last (pocketsTried ?bx ?by (pockets g)))"
    using l by blast
  note c3 = capture_zone [OF c2]
  have c4: "lastPottedBall (checkBall now i g) = Some (colorName ?b)"
    by (rule checkBall_capture_colour [OF np inp cap])
  have c5: "pottedOrRespotted g (balls (ballManager (checkBall now i g)) ! i)"
    by (rule checkBall_capture_ball [OF len np inp cap])
  let ?gi = "foldl (\<lambda>g k. checkBall now k g) g [0..<i]"
  have bi: "balls (ballManager ?gi) ! i = ?b"
    by (rule checkPottedBalls_ball(2) [OF len])
  have xy: "gameX ?gi ?b = ?bx" "gameY ?gi ?b = ?by"
    by (simp_all add: gameX_def gameY_def)
  have "pottedOrRespotted ?gi (balls (ballManager (checkBall now i ?gi)) ! i)"
    using len np inp cap
    by (intro checkBall_capture_ball [of i ?gi p]) (simp_all add: bi xy)
  moreover have "pottedOrRespotted ?gi b' = pottedOrRespotted g b'" for b'
    by (rule pottedOrRespotted_cong) simp_all
  ultimately have c6: "pottedOrRespotted g (balls (ballManager (checkPottedBalls now g)) ! i)"
    by (simp add: checkPottedBalls_ball(1) [OF len])
  from c1 c2 c3 c4 c5 c6 show ?thesis
    unfolding tried_def bx_def by_def by blast
qed

lemma gameNearPocket_facts:
  "balls (ballManager gameNearPocket) = [movingRed]"
  "pockets gameNearPocket = createPockets tableWidth tableHeight"
  "scale gameNearPocket = 5" "offsetX gameNearPocket = 355" "offsetY gameNearPocket = 180"
  "gameX gameNearPocket movingRed = 2" "gameY gameNearPocket movingRed = 0"
  by (simp_all add: newGame_fields calc1600 gameX_def gameY_def setVelocity_def)

lemma first_pocket: "\<lparr>px = 0, py = 0, pradius = pocketRadius\<rparr> \<in> set (createPockets tableWidth tableHeight)"
  by (simp add: createPockets_def)

lemma distp5_2000: "distp5 2 0 0 0 = 2"
  unfolding distp5_def by (rule real_sqrt_unique) simp_all

lemma near_first_pocket: "distp5 2 0 0 0 < pocketRadius * 0.85"
  by (simp add: distp5_2000 pocketRadius_def)

theorem pocket_capture_witness:
  "scale gameNearPocket \<noteq> 0
   \<and> 0 < length (balls (ballManager gameNearPocket))
   \<and> \<not> isPotted (balls (ballManager gameNearPocket) ! 0)
   \<and> \<lparr>px = 0, py = 0, pradius = pocketRadius\<rparr> \<in> set (pockets gameNearPocket)
   \<and> distp5 (gameX gameNearPocket (balls (ballManager gameNearPocket) ! 0))
        (gameY gameNearPocket (balls (ballManager gameNearPocket) ! 0)) 0 0 < pocketRadius * 0.85
   \<and> lastPottedBall (checkBall 0 0 gameNearPocket) = Some Red
   \<and> pottedOrRespotted gameNearPocket (balls (ballManager (checkPottedBalls 0 gameNearPocket)) ! 0)"
proof -
  let ?p = "\<lparr>px = 0, py = 0, pradius = pocketRadius\<rparr>"
  have h0: "scale gameNearPocket \<noteq> 0"
    by (simp add: gameNearPocket_facts)
  have h1: "0 < length (balls (ballManager gameNearPocket))"
    by (simp add: gameNearPocket_facts)
  have h2: "\<not> isPotted (balls (ballManager gameNearPocket) ! 0)"
    by (simp add: gameNearPocket_facts)
  have h3: "?p \<in> set (pockets gameNearPocket)"
    unfolding gameNearPocket_facts by (rule first_pocket)
  have h4: "distp5 (gameX gameNearPocket (balls (ballManager gameNearPocket) ! 0))
        (gameY gameNearPocket (balls (ballManager gameNearPocket) ! 0)) (px ?p) (py ?p) < pradius ?p * 0.85"
    unfolding gameNearPocket_facts nth_Cons_0 using near_first_pocket by simp
  have cn: "colorName (balls (ballManager gameNearPocket) ! 0) = Red"
    by (simp add: gameNearPocket_facts)
  from pocket_capture [OF h0 h1 h2 h3 h4, of 0]
  have "lastPottedBall (checkBall 0 0 gameNearPocket) = Some Red"
    and "pottedOrRespotted gameNearPocket (balls (ballManager (checkPottedBalls 0 gameNearPocket)) ! 0)"
    unfolding cn by blast+
  with h0 h1 h2 h3 h4 show ?thesis
    by simp
qed


text \<open>
  The claim as stated fails on the order of the two tests. The red ball of the example is
  inside the capture radius of the top-left pocket (distance 2, and 0.85 times the radius
  is 3.1518). The pass captures it, but before that the same round has applied the
  attraction: the body of the potted ball carries the force \<open>(-0.008, 0)\<close>, and its
  velocity \<open>(1, 0)\<close> has been damped to \<open>(0.88, 0)\<close>.
\<close>

theorem pocket_capture_counterexample:
  "distp5 (gameX gameNearPocket movingRed) (gameY gameNearPocket movingRed) 0 0 < pocketRadius * 0.85
   \<and> velocity (body movingRed) = \<lparr>xc = 1, yc = 0\<rparr>
   \<and> force (body movingRed) = \<lparr>xc = 0, yc = 0\<rparr>
   \<and> isPotted (balls (ballManager (checkPottedBalls 0 gameNearPocket)) ! 0)
   \<and> velocity (body (balls (ballManager (checkPottedBalls 0 gameNearPocket)) ! 0)) = \<lparr>xc = 0.88, yc = 0\<rparr>
   \<and> force (body (balls (ballManager (checkPottedBalls 0 gameNearPocket)) ! 0)) = \<lparr>xc = - 0.008, yc = 0\<rparr>"
proof -
  let ?p = "\<lparr>px = 0, py = 0, pradius = pocketRadius\<rparr>"
  let ?g = gameNearPocket
  have d: "distp5 (gameX ?g movingRed) (gameY ?g movingRed) 0 0 < pocketRadius * 0.85"
    unfolding gameNearPocket_facts by (rule near_first_pocket)
  have cap: "inCaptureRange 2 0 ?p"
    using near_first_pocket by (simp add: inCaptureRange_def)
  have zone: "inAttractionZone 2 0 ?p"
    by (simp add: inAttractionZone_def distp5_2000 pocketRadius_def)
  have tried: "pocketsTried 2 0 (createPockets tableWidth tableHeight) = [?p]"
    using cap by (simp add: pocketsTried_def createPockets_def)
  have np: "\<not> isPotted (balls (ballManager ?g) ! 0)"
    by (simp add: gameNearPocket_facts)
  have "inCaptureRange (gameX ?g (balls (ballManager ?g) ! 0)) (gameY ?g (balls (ballManager ?g) ! 0)) ?p"
    unfolding gameNearPocket_facts nth_Cons_0 by (rule cap)
  from checkBall_capture [OF np _ this, of 0]
  have cb: "checkBall 0 0 ?g = handleBallPotted 0 0 (attractStep 2 0 0 ?g ?p)"
    unfolding gameNearPocket_facts nth_Cons_0 tried using first_pocket by simp
  have pass: "checkPottedBalls 0 ?g = checkBall 0 0 ?g"
    by (simp add: checkPottedBalls_def gameNearPocket_facts)
  define b1 where "b1 = movingRed\<lparr>body := attract ?g ?p (body movingRed)\<rparr>"
  have bs: "balls (ballManager (attractStep 2 0 0 ?g ?p)) = [b1]"
    using zone by (simp add: attractStep_def updateBall_def b1_def)
  have red: "colorName (balls (ballManager (attractStep 2 0 0 ?g ?p)) ! 0) = Red"
    unfolding bs by (simp add: b1_def)
  have res: "balls (ballManager (checkPottedBalls 0 ?g)) ! 0
      = b1\<lparr>isPotted := True, body := worldRemove (body b1)\<rparr>"
    unfolding pass cb handleBallPotted_red(5) [OF red] bs by simp
  have v: "velocity (body b1) = \<lparr>xc = 0.88, yc = 0\<rparr>"
    by (simp add: b1_def attract_def Let_def applyForce_def setVelocity_def)
  have f: "force (body b1) = \<lparr>xc = - 0.008, yc = 0\<rparr>"
    by (simp add: b1_def attract_def Let_def applyForce_def setVelocity_def newGame_fields calc1600
          newBall_def worldAdd_def bodiesCircle_def)
  show ?thesis
    unfolding res using d v f
    by (simp add: worldRemove_def setVelocity_def newBall_def worldAdd_def bodiesCircle_def)
qed

subsection \<open>Balls already potted\<close>

lemma upt_without:
  assumes "i < n"
  shows "[0..<n] = [0..<i] @ i # [Suc i..<n]"
proof -
  obtain k where k: "n = i + k" and "0 < k"
    using assms by (metis less_imp_add_positive)
  then show ?thesis
    using upt_add_eq_append [of 0 i k] upt_conv_Cons [of i "i + k"] by simp
qed

lemma checkBall_potted: "isPotted (balls (ballManager g) ! i) \<Longrightarrow> checkBall now i g = g"
  by (simp add: checkBall_eq)

lemma spots_not_capturable:
  assumes "spots cn = Some spot" and "p \<in> set (createPockets tableWidth tableHeight)"
  shows "\<not> inCaptureRange (fst spot) (snd spot) p"
proof -
  have r: "(0::real) \<le> pocketRadius * 0.85"
    by (simp add: pocketRadius_def)
  have "\<not> distp5 (fst spot) (snd spot) (px p) (py p) < pocketRadius * 0.85"
    unfolding distp5_ge_iff [OF r]
    using assms
    by (cases cn) (auto simp add: createPockets_def tableWidth_def tableHeight_def pocketRadius_def)
  moreover have "pradius p = pocketRadius"
    using assms(2) by (auto simp add: createPockets_def)
  ultimately show ?thesis
    by (simp add: inCaptureRange_def)
qed


lemma capturable_cong:
  assumes "scale g' = scale g" "offsetX g' = offsetX g" "offsetY g' = offsetY g" "pockets g' = pockets g"
    and "position (body b') = position (body b)" "isPotted b' = isPotted b"
  shows "capturable g' b' = capturable g b"
  using assms by (simp add: capturable_def gameX_def gameY_def)

lemma sameButMotion_keeps:
  assumes "sameButMotion b b'"
  shows "position (body b') = position (body b)" "isPotted b' = isPotted b"
proof -
  from assms have e: "b' = b\<lparr>body := (body b)\<lparr>velocity := velocity (body b'), force := force (body b')\<rparr>\<rparr>"
    by (simp add: sameButMotion_def)
  have "position (body b') = position (body (b\<lparr>body := (body b)\<lparr>velocity := velocity (body b'),
      force := force (body b')\<rparr>\<rparr>))"
    using e by (rule arg_cong)
  then show "position (body b') = position (body b)" by simp
  have "isPotted b' = isPotted (b\<lparr>body := (body b)\<lparr>velocity := velocity (body b'),
      force := force (body b')\<rparr>\<rparr>)"
    using e by (rule arg_cong)
  then show "isPotted b' = isPotted b" by simp
qed

lemma foldl_attractStep_keeps:
  "position (body (balls (ballManager (foldl (attractStep bx by i) g ps)) ! j))
     = position (body (balls (ballManager g) ! j))"
  "isPotted (balls (ballManager (foldl (attractStep bx by i) g ps)) ! j)
     = isPotted (balls (ballManager g) ! j)"
  using foldl_attractStep_nth [of bx "by" i g ps j] sameButMotion_keeps
  by auto

lemma quiet_iff:
  "quiet g \<longleftrightarrow> (\<forall>j < length (balls (ballManager g)). \<not> capturable g (balls (ballManager g) ! j))"
  by (simp add: quiet_def list_ex_iff all_set_conv_all_nth)

lemma not_capturable_iff:
  "\<not> capturable g b \<longleftrightarrow>
     isPotted b \<or> (\<forall>p \<in> set (pockets g). \<not> inCaptureRange (gameX g b) (gameY g b) p)"
  by (auto simp add: capturable_def list_ex_iff)

lemma attract_only_matchState:
  "matchState (foldl (attractStep bx by i) g ps) = matchState g"
proof -
  have "map isPotted (balls (ballManager (foldl (attractStep bx by i) g ps)))
      = map isPotted (balls (ballManager g))"
    by (rule nth_equalityI) (simp_all add: foldl_attractStep_keeps)
  then show ?thesis
    by (simp add: matchState_def)
qed

lemma attract_only_quiet:
  "quiet (foldl (attractStep bx by i) g ps) = quiet g"
proof -
  have "capturable (foldl (attractStep bx by i) g ps)
           (balls (ballManager (foldl (attractStep bx by i) g ps)) ! j)
      = capturable g (balls (ballManager g) ! j)" for j
    by (rule capturable_cong) (simp_all add: foldl_attractStep_keeps)
  then show ?thesis
    by (simp add: quiet_iff)
qed

lemma quiet_checkBall:
  assumes "quiet g" and "i < length (balls (ballManager g))"
  shows "matchState (checkBall now i g) = matchState g" and "quiet (checkBall now i g)"
proof -
  from assms have nc: "\<not> capturable g (balls (ballManager g) ! i)"
    by (simp add: quiet_iff)
  have "checkBall now i g = g \<or>
        checkBall now i g = foldl (attractStep (gameX g (balls (ballManager g) ! i))
                                       (gameY g (balls (ballManager g) ! i)) i) g (pockets g)"
    using checkBall_cases [of now i g] nc [unfolded not_capturable_iff] by blast
  then show "matchState (checkBall now i g) = matchState g" and "quiet (checkBall now i g)"
    using assms(1) by (auto simp add: attract_only_matchState attract_only_quiet)
qed

lemma quiet_foldl:
  assumes "quiet g" and "\<forall>i \<in> set is. i < length (balls (ballManager g))"
  shows "matchState (foldl (\<lambda>g i. checkBall now i g) g is) = matchState g
         \<and> quiet (foldl (\<lambda>g i. checkBall now i g) g is)"
  using assms
proof (induction "is" arbitrary: g)
  case Nil
  then show ?case by simp
next
  case (Cons i "is")
  have i: "i < length (balls (ballManager g))"
    using Cons.prems(2) by simp
  note q = quiet_checkBall [OF Cons.prems(1) i, of now]
  have "\<forall>k \<in> set is. k < length (balls (ballManager (checkBall now i g)))"
    using Cons.prems(2) by simp
  from Cons.IH [OF q(2) this] q(1) show ?case
    by simp
qed

lemma quiet_pass: "quiet g \<Longrightarrow> matchState (checkPottedBalls now g) = matchState g"
  using quiet_foldl [of g "[0..<length (balls (ballManager g))]" now]
  by (simp add: checkPottedBalls_def)

lemma pass_makes_quiet:
  assumes sc: "scale g \<noteq> 0"
    and pk: "pockets g = createPockets tableWidth tableHeight"
  shows "quiet (checkPottedBalls now g)"
  unfolding quiet_iff
proof (intro allI impI)
  fix j
  let ?g1 = "checkPottedBalls now g"
  let ?gj = "foldl (\<lambda>g k. checkBall now k g) g [0..<j]"
  assume "j < length (balls (ballManager ?g1))"
  then have j: "j < length (balls (ballManager g))"
    by (simp add: checkPottedBalls_def)
  have b1: "balls (ballManager ?g1) ! j = balls (ballManager (checkBall now j ?gj)) ! j"
    by (rule checkPottedBalls_ball(1) [OF j])
  have fr1: "scale ?g1 = scale g" "offsetX ?g1 = offsetX g" "offsetY ?g1 = offsetY g"
      "pockets ?g1 = pockets g"
    by (simp_all add: checkPottedBalls_def)
  have frj: "scale ?gj = scale g" "offsetX ?gj = offsetX g" "offsetY ?gj = offsetY g"
      "pockets ?gj = pockets g"
    by simp_all
  let ?b = "balls (ballManager ?gj) ! j"
  let ?b' = "balls (ballManager (checkBall now j ?gj)) ! j"
  have jj: "j < length (balls (ballManager ?gj))"
    using j by simp
  consider (potted) "checkBall now j ?gj = ?gj" "isPotted ?b"
    | (free) "\<not> isPotted ?b"
        "\<forall>p \<in> set (pockets ?gj). \<not> inCaptureRange (gameX ?gj ?b) (gameY ?gj ?b) p"
        "checkBall now j ?gj = foldl (attractStep (gameX ?gj ?b) (gameY ?gj ?b) j) ?gj (pockets ?gj)"
    | (captured) p where "\<not> isPotted ?b" "p \<in> set (pockets ?gj)"
        "inCaptureRange (gameX ?gj ?b) (gameY ?gj ?b) p"
    using checkBall_cases [of now j ?gj] by blast
  then have "\<not> capturable ?g1 ?b'"
  proof cases
    case potted
    then show ?thesis
      by (simp add: capturable_def)
  next
    case free
    have "capturable ?g1 ?b' = capturable ?gj ?b"
      unfolding free(3)
      by (rule capturable_cong) (simp_all add: fr1 foldl_attractStep_keeps)
    with free(1,2) show ?thesis
      by (simp add: not_capturable_iff)
  next
    case captured
    from checkBall_capture_ball [OF jj captured, of now]
    have pr: "pottedOrRespotted ?gj ?b'" .
    show ?thesis
    proof (cases "isPotted ?b'")
      case True
      then show ?thesis by (simp add: capturable_def)
    next
      case False
      with pr obtain spot where sp: "spots (colorName ?b') = Some spot"
        and pos: "position (body ?b') =
           \<lparr>xc = offsetX g + fst spot * scale g, yc = offsetY g + snd spot * scale g\<rparr>"
        by (auto simp add: pottedOrRespotted_def split: option.splits)
      have xy: "gameX ?g1 ?b' = fst spot" "gameY ?g1 ?b' = snd spot"
        using sc by (simp_all add: gameX_def gameY_def fr1 pos)
      show ?thesis
        unfolding not_capturable_iff xy fr1 pk
        using spots_not_capturable [OF sp] by blast
    qed
  qed
  then show "\<not> capturable ?g1 (balls (ballManager ?g1) ! j)"
    by (simp add: b1)
qed

lemma second_pass_matchState:
  assumes "scale g \<noteq> 0" and "pockets g = createPockets tableWidth tableHeight"
  shows "matchState (checkPottedBalls now' (checkPottedBalls now g)) = matchState (checkPottedBalls now g)"
  by (rule quiet_pass [OF pass_makes_quiet [OF assms]])

text \<open>
  Claim C5, as amended. A pot reaches \<^verbatim>\<open>handleBallPotted\<close> only from the pass
  \<^verbatim>\<open>checkPottedBalls\<close>, and the pass skips every ball already marked potted: the round of
  such a ball changes nothing in the game state, the whole pass is the pass over the other
  balls, and the record of the ball stays as it was. So no second pot is delivered for a
  ball that is marked potted. For the pass as a whole, on the table's six pockets and with a
  scale that is not zero: running the pass a second time on the state the first pass left
  gives the same match state (score manager with its scores, break, counters and
  log, the count of consecutive colours, the last potted ball, the placement flag and the
  potted flags of all balls) as running it once.
\<close>

theorem potted_ball_is_skipped:
  "(i < length (balls (ballManager g)) \<and> isPotted (balls (ballManager g) ! i) \<longrightarrow>
      checkBall now i g = g
      \<and> checkPottedBalls now g =
          foldl (\<lambda>g k. checkBall now k g) g ([0..<i] @ [Suc i..<length (balls (ballManager g))])
      \<and> balls (ballManager (checkPottedBalls now g)) ! i = balls (ballManager g) ! i)
   \<and> (scale g \<noteq> 0 \<and> pockets g = createPockets tableWidth tableHeight \<longrightarrow>
      matchState (checkPottedBalls now' (checkPottedBalls now g)) = matchState (checkPottedBalls now g))"
proof (intro conjI impI)
  assume a: "i < length (balls (ballManager g)) \<and> isPotted (balls (ballManager g) ! i)"
  then have len: "i < length (balls (ballManager g))"
    and pot: "isPotted (balls (ballManager g) ! i)"
    by simp_all
  let ?gi = "foldl (\<lambda>g k. checkBall now k g) g [0..<i]"
  have bi: "balls (ballManager ?gi) ! i = balls (ballManager g) ! i"
    by (rule checkPottedBalls_ball(2) [OF len])
  then have skip: "checkBall now i ?gi = ?gi"
    using pot by (simp add: checkBall_potted)
  show "checkBall now i g = g"
    using pot by (rule checkBall_potted)
  show pass: "checkPottedBalls now g =
      foldl (\<lambda>g k. checkBall now k g) g ([0..<i] @ [Suc i..<length (balls (ballManager g))])"
    by (simp add: checkPottedBalls_split [OF len] skip)
  show "balls (ballManager (checkPottedBalls now g)) ! i = balls (ballManager g) ! i"
    unfolding pass by (rule foldl_checkBall_other) simp
next
  assume "scale g \<noteq> 0 \<and> pockets g = createPockets tableWidth tableHeight"
  then have "scale g \<noteq> 0" and "pockets g = createPockets tableWidth tableHeight"
    by simp_all
  then show "matchState (checkPottedBalls now' (checkPottedBalls now g))
      = matchState (checkPottedBalls now g)"
    by (rule second_pass_matchState)
qed

theorem potted_ball_is_skipped_witness:
  "0 < length (balls (ballManager (handleBallPotted 0 0 gameNearPocket)))
   \<and> isPotted (balls (ballManager (handleBallPotted 0 0 gameNearPocket)) ! 0)
   \<and> scale gameNearPocket \<noteq> 0
   \<and> pockets gameNearPocket = createPockets tableWidth tableHeight
   \<and> checkBall 1 0 (handleBallPotted 0 0 gameNearPocket) = handleBallPotted 0 0 gameNearPocket
   \<and> checkPottedBalls 1 (handleBallPotted 0 0 gameNearPocket) = handleBallPotted 0 0 gameNearPocket
   \<and> matchState (checkPottedBalls 1 (checkPottedBalls 0 gameNearPocket))
       = matchState (checkPottedBalls 0 gameNearPocket)"
proof -
  let ?g = "handleBallPotted 0 0 gameNearPocket"
  have red: "colorName (balls (ballManager gameNearPocket) ! 0) = Red"
    by (simp add: gameNearPocket_facts)
  have bs: "balls (ballManager ?g) = [movingRed\<lparr>isPotted := True, body := worldRemove (body movingRed)\<rparr>]"
    unfolding handleBallPotted_red(5) [OF red] gameNearPocket_facts by simp
  have h1: "0 < length (balls (ballManager ?g))"
    unfolding bs by simp
  have h2: "isPotted (balls (ballManager ?g) ! 0)"
    unfolding bs by simp
  have h3: "scale gameNearPocket \<noteq> 0"
    by (simp add: gameNearPocket_facts)
  have h4: "pockets gameNearPocket = createPockets tableWidth tableHeight"
    by (rule gameNearPocket_facts)
  from potted_ball_is_skipped [of 0 ?g 1] h1 h2
  have "checkBall 1 0 ?g = ?g" and "checkPottedBalls 1 ?g = ?g"
    by (simp_all add: bs)
  moreover from potted_ball_is_skipped [of 0 gameNearPocket 0 1] h3 h4
  have "matchState (checkPottedBalls 1 (checkPottedBalls 0 gameNearPocket))
      = matchState (checkPottedBalls 0 gameNearPocket)"
    by blast
  ultimately show ?thesis
    using h1 h2 h3 h4 by simp
qed

text \<open>
  The claim as stated fails for the handler itself: \<^verbatim>\<open>handleBallPotted\<close> does not test
  \<^verbatim>\<open>isPotted\<close>. Delivered once for the red ball of the example it gives player 1 one
  point and marks the ball potted; delivered again for the same, now potted, ball it gives
  a second point and counts a second pot.
\<close>

theorem pot_twice_counterexample:
  "isPotted (balls (ballManager (handleBallPotted 0 0 gameNearPocket)) ! 0)
   \<and> player1Score (scoreManager (handleBallPotted 0 0 gameNearPocket)) = 1
   \<and> player1Score (scoreManager (handleBallPotted 0 0 (handleBallPotted 0 0 gameNearPocket))) = 2
   \<and> ballsPottedTotal (stats (scoreManager (handleBallPotted 0 0 gameNearPocket))) = 1
   \<and> ballsPottedTotal (stats (scoreManager (handleBallPotted 0 0 (handleBallPotted 0 0 gameNearPocket)))) = 2"
proof -
  let ?g = "handleBallPotted 0 0 gameNearPocket"
  have red: "colorName (balls (ballManager gameNearPocket) ! 0) = Red"
    by (simp add: gameNearPocket_facts)
  have bs: "balls (ballManager ?g) = [movingRed\<lparr>isPotted := True, body := worldRemove (body movingRed)\<rparr>]"
    unfolding handleBallPotted_red(5) [OF red] gameNearPocket_facts by simp
  have red': "colorName (balls (ballManager ?g) ! 0) = Red"
    unfolding bs by simp
  have s1: "scoreManager ?g = recordBallPotted Red 0 (newScoreManager 0)"
    unfolding handleBallPotted_red(1) [OF red] by (simp add: newGame_fields)
  have s2: "scoreManager (handleBallPotted 0 0 ?g)
      = recordBallPotted Red 0 (recordBallPotted Red 0 (newScoreManager 0))"
    unfolding handleBallPotted_red(1) [OF red'] s1 by simp
  have p1: "player1Score (recordBallPotted Red 0 s) = player1Score s + 1" if "currentPlayer s = 1" for s
    using recordBallPotted_scores(2) [of Red 0 s] recordBallPotted_scores(1) [of Red 0 s] that
    by (simp add: scoreOf_def pointsOf_def)
  have cp: "currentPlayer (recordBallPotted Red 0 (newScoreManager 0)) = 1"
    by (simp add: recordBallPotted_scores newScoreManager_def)
  show ?thesis
    unfolding s1 s2 bs
    by (simp add: p1 cp recordBallPotted_scores newScoreManager_def)
qed

subsection \<open>Respotting a colour\<close>

lemma validAgainst_Cons:
  "validAgainst x y (b # bs) =
     (25 \<le> (ballX b - x) * (ballX b - x) + (ballY b - y) * (ballY b - y) \<and> validAgainst x y bs)"
  using distp5_ge_iff [of 5 x y "ballX b" "ballY b"] by (auto simp add: minDistance_def)

lemma potted_xy [simp]:
  "ballX (b\<lparr>isPotted := v, body := worldRemove (body b)\<rparr>) = ballX b"
  "ballY (b\<lparr>isPotted := v, body := worldRemove (body b)\<rparr>) = ballY b"
  by (simp_all add: ballX_def ballY_def worldRemove_def)

lemma handleBallPotted_coloured_respot:
  assumes "isColoured (colorName (balls (ballManager g) ! i))"
  shows "\<exists>g2. handleBallPotted now i g =
            (respotColoredBall i g2)\<lparr>lastPottedBall := Some (colorName (balls (ballManager g) ! i))\<rparr>
          \<and> ballManager g2 = ballManager (updateBall i (\<lambda>b. b\<lparr>isPotted := True, body := worldRemove (body b)\<rparr>) g)
          \<and> scale g2 = scale g \<and> offsetX g2 = offsetX g \<and> offsetY g2 = offsetY g"
proof -
  define g1 where "g1 = updateBall i (\<lambda>b. b\<lparr>isPotted := True, body := worldRemove (body b)\<rparr>) g"
  define cn where "cn = colorName (balls (ballManager g) ! i)"
  define gs where "gs = g1\<lparr>scoreManager := recordBallPotted cn now (scoreManager g1)\<rparr>"
  define g2 where "g2 =
     (if (case lastPottedBall gs of Some l \<Rightarrow> l \<noteq> Red \<and> l \<noteq> White | None \<Rightarrow> False)
      then (if consecutiveColoredPotted gs + 1 \<ge> 2
            then gs\<lparr>consecutiveColoredPotted := consecutiveColoredPotted gs + 1,
                   scoreManager := recordFoul ''Two consecutive colored balls potted'' 4 now
                                     (scoreManager gs)\<rparr>
            else gs\<lparr>consecutiveColoredPotted := consecutiveColoredPotted gs + 1\<rparr>)
      else gs\<lparr>consecutiveColoredPotted := 1\<rparr>)"
  have "handleBallPotted now i g = (respotColoredBall i g2)\<lparr>lastPottedBall := Some cn\<rparr>"
    using assms
    unfolding handleBallPotted_def Let_def isColoured_def g2_def gs_def g1_def cn_def
    by simp
  moreover have "ballManager g2 = ballManager g1"
    by (simp add: g2_def gs_def)
  moreover have "scale g2 = scale g" "offsetX g2 = offsetX g" "offsetY g2 = offsetY g"
    by (simp_all add: g2_def gs_def g1_def)
  ultimately show ?thesis
    unfolding g1_def cn_def by blast
qed

lemma respot_result:
  assumes "i < length (balls (ballManager g))"
    and "spots (colorName (balls (ballManager g) ! i)) = Some spot"
  shows "balls (ballManager (respotColoredBall i g)) ! i =
     (if isValidPosition (ballManager g) (fst spot) (snd spot)
      then (balls (ballManager g) ! i)\<lparr>isPotted := False,
              body := respotBody g spot (balls (ballManager g) ! i)\<rparr>
      else balls (ballManager g) ! i)"
  using assms by (simp add: respotColoredBall_def Let_def updateBall_def)

lemma respotBody_cong:
  "scale g' = scale g \<Longrightarrow> offsetX g' = offsetX g \<Longrightarrow> offsetY g' = offsetY g \<Longrightarrow>
     respotBody g' spot b = respotBody g spot b"
  by (simp add: respotBody_def)

lemma handleBallPotted_coloured_ball:
  assumes "i < length (balls (ballManager g))"
    and "isColoured (colorName (balls (ballManager g) ! i))"
    and "spots (colorName (balls (ballManager g) ! i)) = Some spot"
  shows "balls (ballManager (handleBallPotted now i g)) ! i =
     (if isValidPosition
           ((ballManager g)\<lparr>balls := (balls (ballManager g))[i := (balls (ballManager g) ! i)
               \<lparr>isPotted := True, body := worldRemove (body (balls (ballManager g) ! i))\<rparr>]\<rparr>)
           (fst spot) (snd spot)
      then (balls (ballManager g) ! i)\<lparr>isPotted := False,
              body := respotBody g spot ((balls (ballManager g) ! i)
                 \<lparr>isPotted := True, body := worldRemove (body (balls (ballManager g) ! i))\<rparr>)\<rparr>
      else (balls (ballManager g) ! i)\<lparr>isPotted := True,
              body := worldRemove (body (balls (ballManager g) ! i))\<rparr>)"
proof -
  let ?b = "balls (ballManager g) ! i"
  let ?b1 = "?b\<lparr>isPotted := True, body := worldRemove (body ?b)\<rparr>"
  obtain g2 where h: "handleBallPotted now i g =
            (respotColoredBall i g2)\<lparr>lastPottedBall := Some (colorName ?b)\<rparr>"
      and bm: "ballManager g2 = (ballManager g)\<lparr>balls := (balls (ballManager g))[i := ?b1]\<rparr>"
      and fr: "scale g2 = scale g" "offsetX g2 = offsetX g" "offsetY g2 = offsetY g"
    using handleBallPotted_coloured_respot [OF assms(2), of now] by (auto simp add: updateBall_def)
  have i2: "i < length (balls (ballManager g2))"
    using assms(1) by (simp add: bm)
  have b2: "balls (ballManager g2) ! i = ?b1"
    using assms(1) by (simp add: bm)
  have sp: "spots (colorName (balls (ballManager g2) ! i)) = Some spot"
    using assms(3) by (simp add: b2)
  have r: "balls (ballManager (respotColoredBall i g2)) ! i =
     (if isValidPosition (ballManager g2) (fst spot) (snd spot)
      then ?b1\<lparr>isPotted := False, body := respotBody g2 spot ?b1\<rparr>
      else ?b1)"
    using respot_result [OF i2 sp] unfolding b2 .
  have "balls (ballManager (handleBallPotted now i g)) ! i
      = balls (ballManager (respotColoredBall i g2)) ! i"
    unfolding h by simp
  also note r
  finally show ?thesis
    unfolding bm respotBody_cong [OF fr] by simp
qed

text \<open>
  Claim C7 fails for the pink ball. \<^verbatim>\<open>addColoredBalls\<close> lays the pink ball at
  \<open>x = 130 - 4.944 = 125.056\<close> (and \<^verbatim>\<open>Table.js\<close> draws the pink spot there, "same position
  as pink ball"), but the table of \<^verbatim>\<open>respotColoredBall\<close> still has \<open>x = 141\<close>. On a rack of
  the six colours the point \<open>(141, 44.5)\<close> is free: the potted pink ball comes back with
  its body at \<open>x = 141\<close>, not at the coordinate it had at layout time.
\<close>

theorem respot_pink_off_layout_spot:
  "colorName (balls (ballManager gameColours) ! 0) = Pink
   \<and> gameX gameColours (balls (ballManager gameColours) ! 0) = 125.056
   \<and> gameY gameColours (balls (ballManager gameColours) ! 0) = 44.5
   \<and> isValidPosition (ballManager gameColours) 141 44.5
   \<and> \<not> isPotted (balls (ballManager (handleBallPotted 0 0 gameColours)) ! 0)
   \<and> inWorld (body (balls (ballManager (handleBallPotted 0 0 gameColours)) ! 0))
   \<and> gameX gameColours (balls (ballManager (handleBallPotted 0 0 gameColours)) ! 0) = 141
   \<and> gameY gameColours (balls (ballManager (handleBallPotted 0 0 gameColours)) ! 0) = 44.5"
proof -
  let ?bm = "addColoredBalls (newBallManager 5 355 180)"
  have fr: "scale gameColours = 5" "offsetX gameColours = 355" "offsetY gameColours = 180"
    by (simp_all add: newGame_fields calc1600)
  have bs: "balls ?bm =
     [newBall pinkX 44.5 Pink ''pink'' 5 355 180 False,
      newBall 89 44.5 Blue ''blue'' 5 355 180 False,
      newBall 44.5 44.5 Brown ''brown'' 5 355 180 False,
      newBall 44.5 33.375 Green ''green'' 5 355 180 False,
      newBall 44.5 55.625 Yellow ''yellow'' 5 355 180 False,
      newBall 164 44.5 Black ''black'' 5 355 180 False]"
    by (simp add: balls_addColoredBalls newBallManager_def)
  have v0: "isValidPosition ?bm 141 44.5"
    unfolding isValidPosition_def bs
    by (simp add: validAgainst_Cons pinkX_def redApexX_def ballDiameter_def del: validAgainst.simps(2))
  have v1: "isValidPosition (?bm\<lparr>balls := (balls ?bm)[0 := (balls ?bm ! 0)\<lparr>isPotted := True,
               body := worldRemove (body (balls ?bm ! 0))\<rparr>]\<rparr>) 141 44.5"
    unfolding isValidPosition_def bs
    by (simp add: validAgainst_Cons pinkX_def redApexX_def ballDiameter_def del: validAgainst.simps(2))
  have b0: "balls (ballManager gameColours) ! 0 = newBall pinkX 44.5 Pink ''pink'' 5 355 180 False"
    by (simp add: bs)
  have i0: "0 < length (balls (ballManager gameColours))"
    by (simp add: bs)
  have c0: "isColoured (colorName (balls (ballManager gameColours) ! 0))"
    unfolding b0 by (simp add: isColoured_def)
  have s0: "spots (colorName (balls (ballManager gameColours) ! 0)) = Some (141, 44.5)"
    unfolding b0 by simp
  have res: "balls (ballManager (handleBallPotted 0 0 gameColours)) ! 0 =
      (balls ?bm ! 0)\<lparr>isPotted := False,
         body := respotBody gameColours (141, 44.5)
            ((balls ?bm ! 0)\<lparr>isPotted := True, body := worldRemove (body (balls ?bm ! 0))\<rparr>)\<rparr>"
    using handleBallPotted_coloured_ball [OF i0 c0 s0, of 0] v1 by simp
  have x0: "gameX gameColours (newBall pinkX 44.5 Pink ''pink'' 5 355 180 False) = 125.056"
       "gameY gameColours (newBall pinkX 44.5 Pink ''pink'' 5 355 180 False) = 44.5"
    by (simp_all add: gameX_def gameY_def fr pinkX_def redApexX_def ballDiameter_def)
  have x1: "gameX gameColours (b\<lparr>isPotted := False, body := respotBody gameColours (141, 44.5) b'\<rparr>) = 141"
       "gameY gameColours (b\<lparr>isPotted := False, body := respotBody gameColours (141, 44.5) b'\<rparr>) = 44.5"
       "inWorld (respotBody gameColours (141, 44.5) b')" for b b'
    by (simp_all add: gameX_def gameY_def fr respotBody_def worldAdd_def bodiesCircle_def)
  show ?thesis
    unfolding res b0 using v0 x0 x1 by simp
qed


text \<open>For the five other colours the respot table and the layout agree, and the handler
  puts a potted colour back on the point of the respot table when that point is valid;
  otherwise the ball stays potted, and a later call of \<^verbatim>\<open>respotColoredBall\<close> with the point
  free brings it back.\<close>

lemma layout_matches_spots:
  "\<forall>b \<in> set (balls (addColoredBalls (newBallManager sc ox oy))).
      colorName b \<noteq> Pink \<longrightarrow>
        position (body b) = \<lparr>xc = ox + fst (the (spots (colorName b))) * sc,
                                yc = oy + snd (the (spots (colorName b))) * sc\<rparr>"
  by (simp add: balls_addColoredBalls newBallManager_def)

lemma respot_at_spot:
  assumes "i < length (balls (ballManager g))"
    and "isColoured (colorName (balls (ballManager g) ! i))"
    and "spots (colorName (balls (ballManager g) ! i)) = Some spot"
    and "isValidPosition
           ((ballManager g)\<lparr>balls := (balls (ballManager g))[i := (balls (ballManager g) ! i)
               \<lparr>isPotted := True, body := worldRemove (body (balls (ballManager g) ! i))\<rparr>]\<rparr>)
           (fst spot) (snd spot)"
  shows "\<not> isPotted (balls (ballManager (handleBallPotted now i g)) ! i)"
    and "inWorld (body (balls (ballManager (handleBallPotted now i g)) ! i))"
    and "position (body (balls (ballManager (handleBallPotted now i g)) ! i))
           = \<lparr>xc = offsetX g + fst spot * scale g, yc = offsetY g + snd spot * scale g\<rparr>"
  unfolding handleBallPotted_coloured_ball [OF assms(1-3)] using assms(4)
  by (simp_all add: respotBody_def worldAdd_def bodiesCircle_def)

lemma respot_blocked:
  assumes "i < length (balls (ballManager g))"
    and "isColoured (colorName (balls (ballManager g) ! i))"
    and "spots (colorName (balls (ballManager g) ! i)) = Some spot"
    and "\<not> isValidPosition
           ((ballManager g)\<lparr>balls := (balls (ballManager g))[i := (balls (ballManager g) ! i)
               \<lparr>isPotted := True, body := worldRemove (body (balls (ballManager g) ! i))\<rparr>]\<rparr>)
           (fst spot) (snd spot)"
  shows "isPotted (balls (ballManager (handleBallPotted now i g)) ! i)"
    and "\<not> inWorld (body (balls (ballManager (handleBallPotted now i g)) ! i))"
  unfolding handleBallPotted_coloured_ball [OF assms(1-3)] using assms(4)
  by (simp_all add: worldRemove_def)

lemma respot_later:
  assumes "i < length (balls (ballManager g))"
    and "spots (colorName (balls (ballManager g) ! i)) = Some spot"
    and "isValidPosition (ballManager g) (fst spot) (snd spot)"
  shows "\<not> isPotted (balls (ballManager (respotColoredBall i g)) ! i)"
    and "inWorld (body (balls (ballManager (respotColoredBall i g)) ! i))"
    and "position (body (balls (ballManager (respotColoredBall i g)) ! i))
           = \<lparr>xc = offsetX g + fst spot * scale g, yc = offsetY g + snd spot * scale g\<rparr>"
  unfolding respot_result [OF assms(1,2)] using assms(3)
  by (simp_all add: respotBody_def worldAdd_def bodiesCircle_def)

subsection \<open>Invariants of the reachable states\<close>

lemma ballIds_updateBall:
  "(\<And>b. ballId (f b) = ballId b) \<Longrightarrow> ballIds (ballManager (updateBall i f g)) = ballIds (ballManager g)"
proof -
  assume f: "\<And>b. ballId (f b) = ballId b"
  have "map ballId (bs[i := f (bs ! i)]) = map ballId bs" for bs
  proof (cases "i < length bs")
    case True
    then have "(map ballId bs)[i := ballId (bs ! i)] = map ballId bs"
      by (metis list_update_id nth_map)
    then show ?thesis
      by (simp add: map_update f)
  next
    case False
    then show ?thesis
      by (simp add: list_update_beyond)
  qed
  then show ?thesis
    by (simp add: ballIds_def updateBall_def)
qed

lemma ballIds_respot: "ballIds (ballManager (respotColoredBall i g)) = ballIds (ballManager g)"
  by (simp add: respotColoredBall_def Let_def ballIds_updateBall split: option.split)

lemma ballIds_handleBallPotted: "ballIds (ballManager (handleBallPotted now i g)) = ballIds (ballManager g)"
proof -
  have "ballIds (ballManager (respotColoredBall i g')) = ballIds (ballManager g)"
    if "ballManager g' = ballManager (updateBall i (\<lambda>b. b\<lparr>isPotted := True, body := worldRemove (body b)\<rparr>) g)"
    for g'
    using that ballIds_updateBall [of "\<lambda>b. b\<lparr>isPotted := True, body := worldRemove (body b)\<rparr>" i g]
    by (simp add: ballIds_respot)
  then show ?thesis
    using ballIds_updateBall [of "\<lambda>b. b\<lparr>isPotted := True, body := worldRemove (body b)\<rparr>" i g]
    by (simp add: handleBallPotted_def Let_def)
qed

lemma ballIds_attractStep: "ballIds (ballManager (attractStep bx by i g p)) = ballIds (ballManager g)"
  by (simp add: attractStep_def ballIds_updateBall)

lemma ballIds_foldl_attractStep:
  "ballIds (ballManager (foldl (attractStep bx by i) g ps)) = ballIds (ballManager g)"
  by (induction ps arbitrary: g) (simp_all add: ballIds_attractStep)

lemma ballIds_checkBall: "ballIds (ballManager (checkBall now i g)) = ballIds (ballManager g)"
  using checkBall_cases [of now i g]
  by (elim disjE conjE) (simp_all add: ballIds_handleBallPotted ballIds_foldl_attractStep)

lemma ballIds_foldl_checkBall:
  "ballIds (ballManager (foldl (\<lambda>g i. checkBall now i g) g is)) = ballIds (ballManager g)"
  by (induction "is" arbitrary: g) (simp_all add: ballIds_checkBall)

lemma ballIds_checkPottedBalls: "ballIds (ballManager (checkPottedBalls now g)) = ballIds (ballManager g)"
  by (simp add: checkPottedBalls_def ballIds_foldl_checkBall)

lemma ballId_ballUpdate [simp]: "ballId (ballUpdate b) = ballId b"
  by (simp add: ballUpdate_def Let_def)

lemma ballId_escapeReset [simp]: "ballId (escapeReset g b) = ballId b"
  by (simp add: escapeReset_def Let_def)

lemma ballIds_gameUpdate: "ballIds (ballManager (gameUpdate now g)) = ballIds (ballManager g)"
proof (cases "isPaused g")
  case True
  then show ?thesis by (simp add: gameUpdate_def)
next
  case False
  define g1 where "g1 = g\<lparr>ballManager := (ballManager g)\<lparr>balls := map ballUpdate (balls (ballManager g))\<rparr>\<rparr>"
  define g3 where "g3 = (if ballsMoving g1 \<and> \<not> checkBallsMoving g1
       then g1\<lparr>ballsMoving := checkBallsMoving g1,
              scoreManager := endShot now (scoreManager g1)\<rparr>
       else g1\<lparr>ballsMoving := checkBallsMoving g1\<rparr>)"
  have i1: "ballIds (ballManager g1) = ballIds (ballManager g)"
    by (simp add: g1_def ballIds_def)
  have i3: "ballIds (ballManager g3) = ballIds (ballManager g1)"
    by (simp add: g3_def)
  have "gameUpdate now g = checkEscapedBalls (checkPottedBalls now g3)"
    using False by (simp add: gameUpdate_def Let_def g3_def g1_def)
  moreover have "ballIds (ballManager (checkEscapedBalls g')) = ballIds (ballManager g')" for g'
    by (simp add: checkEscapedBalls_def ballIds_def comp_def)
  ultimately show ?thesis
    by (simp add: ballIds_checkPottedBalls i1 i3)
qed

lemma engineMoved_id: "engineMoved b b' \<Longrightarrow> ballId b' = ballId b"
proof -
  assume "engineMoved b b'"
  then have "ballId b' = ballId (b\<lparr>body := (body b)\<lparr>position := position (body b'),
      velocity := velocity (body b'), force := force (body b'),
      angularVelocity := angularVelocity (body b')\<rparr>\<rparr>)"
    unfolding engineMoved_def by (rule arg_cong)
  then show ?thesis by simp
qed

lemma engineMoved_ids: "list_all2 engineMoved bs bs' \<Longrightarrow> map ballId bs' = map ballId bs"
  by (induction rule: list_all2_induct) (simp_all add: engineMoved_id)

lemma ballIds_updateFirst:
  "(\<And>b. ballId (f b) = ballId b) \<Longrightarrow> map ballId (updateFirst P f bs) = map ballId bs"
  by (induction bs) simp_all

lemma ballIds_updateTablePosition:
  "ballIds (ballManager (updateTablePosition w h g)) = ballIds (ballManager g)"
  by (simp add: updateTablePosition_def updateCueBallPosition_def Let_def ballIds_def
        ballIds_updateFirst comp_def split: prod.split)

lemma ballIds_settle: "ballIds (settleBalls bm) = ballIds bm"
  by (simp add: settleBalls_def ballIds_def comp_def)

lemma cueRecords_cong: "ballIds bm' = ballIds bm \<Longrightarrow> cueRecords bm' = cueRecords bm"
  by (simp add: cueRecords_ids)

lemma cueRecords_handleKeyPress:
  assumes "handleKeyPress k rnd g = Some g'"
  shows "cueRecords (ballManager g') = (if k \<in> {CHR ''1'', CHR ''2'', CHR ''3''} then 0
                                        else cueRecords (ballManager g))"
  using assms
  by (auto simp add: handleKeyPress_def resetForLayout_def cueRecords_setupStartingPositions
        cueRecords_setupRandomAll cueRecords_setupRandomReds split: if_splits option.splits prod.splits)

lemma cueRecords_handleMousePress:
  "cueRecords (ballManager (handleMousePress x y g)) =
     (if isPlacingCueBall g \<and> isValidCueBallPosition g ((x - offsetX g) / scale g) ((y - offsetY g) / scale g)
      then 1 else cueRecords (ballManager g))"
  by (simp add: handleMousePress_def Let_def cueRecords_addCueBall)

lemma reachable_cue: "reachable g \<Longrightarrow> cueRecords (ballManager g) \<le> 1"
proof (induction rule: reachable.induct)
  case (start windowWidth windowHeight now)
  then show ?case
    by (simp add: newGame_def initializeGame_def cueRecords_setupStartingPositions split: prod.split)
next
  case (engine g bs)
  from engineMoved_ids [OF engine.hyps(2)] engine.IH show ?case
    by (simp add: cueRecords_ids ballIds_def)
next
  case (frame g now)
  then show ?case
    by (simp add: cueRecords_cong [OF ballIds_gameUpdate])
next
  case (key g k rnd g')
  then show ?case
    by (simp add: cueRecords_handleKeyPress)
next
  case (press g x y)
  then show ?case
    by (simp add: cueRecords_handleMousePress)
next
  case (shoot g)
  then show ?case by simp
next
  case (settle g)
  then show ?case
    by (simp add: cueRecords_cong [OF ballIds_settle])
next
  case (resize g windowWidth windowHeight)
  then show ?case
    by (simp add: cueRecords_cong [OF ballIds_updateTablePosition])
next
  case (ballHit g c)
  then show ?case by simp
next
  case (cushionHit g)
  then show ?case by simp
qed


text \<open>
  Claim C9, as amended. In every reachable game state at most one cue-ball record exists.
  No layout creates one: the constructor and the layouts of the keys 1, 2 and 3 are all
  run without a cue ball and leave no cue record; the cue ball appears only when it is
  placed. \<^verbatim>\<open>addCueBall\<close> removes any cue record first, so after it exactly one cue record
  exists, also when it is called again.
\<close>

theorem cue_records:
  assumes "reachable g"
  shows "cueRecords (ballManager g) \<le> 1
    \<and> cueRecords (ballManager (newGame w h t)) = 0
    \<and> cueRecords (ballManager (initializeGame g)) = 0
    \<and> (handleKeyPress k rnd g = Some g' \<and> k \<in> {CHR ''1'', CHR ''2'', CHR ''3''}
          \<longrightarrow> cueRecords (ballManager g') = 0)
    \<and> cueRecords (addCueBall x y e (ballManager g)) = 1
    \<and> cueRecords (addCueBall x' y' e' (addCueBall x y e (ballManager g))) = 1"
proof -
  have "cueRecords (ballManager (newGame w h t)) = 0"
    by (simp add: newGame_def initializeGame_def cueRecords_setupStartingPositions split: prod.split)
  moreover have "cueRecords (ballManager (initializeGame g)) = 0"
    by (simp add: initializeGame_def cueRecords_setupStartingPositions)
  moreover have "handleKeyPress k rnd g = Some g' \<and> k \<in> {CHR ''1'', CHR ''2'', CHR ''3''}
          \<longrightarrow> cueRecords (ballManager g') = 0"
    using cueRecords_handleKeyPress [of k rnd g g'] by auto
  ultimately show ?thesis
    using reachable_cue [OF assms] by (simp add: cueRecords_addCueBall)
qed

theorem cue_records_witness:
  "reachable (newGame 1600 805 0)
   \<and> cueRecords (ballManager (newGame 1600 805 0)) \<le> 1
   \<and> handleKeyPress (CHR ''1'') (\<lambda>k. (0, 0)) (newGame 1600 805 0)
        = Some (resetForLayout 1 (setupStartingPositions False (ballManager (newGame 1600 805 0)))
                  (newGame 1600 805 0))
   \<and> cueRecords (ballManager (resetForLayout 1
          (setupStartingPositions False (ballManager (newGame 1600 805 0))) (newGame 1600 805 0))) = 0
   \<and> cueRecords (addCueBall 30 44.5 True (ballManager (newGame 1600 805 0))) = 1"
proof -
  let ?g = "newGame 1600 805 0"
  let ?g' = "resetForLayout 1 (setupStartingPositions False (ballManager ?g)) ?g"
  have r: "reachable ?g"
    by (rule reachable.start)
  have k: "handleKeyPress (CHR ''1'') (\<lambda>k. (0, 0)) ?g = Some ?g'"
    by (simp add: handleKeyPress_def)
  note t = cue_records [OF r, of 1600 805 0 "CHR ''1''" "\<lambda>k. (0, 0)" ?g' 30 "44.5" True 30 "44.5" True]
  from t k have "cueRecords (ballManager ?g') = 0"
    by blast
  moreover from t have "cueRecords (ballManager ?g) \<le> 1"
     and "cueRecords (addCueBall 30 44.5 True (ballManager ?g)) = 1"
    by blast+
  ultimately show ?thesis
    using r k by blast
qed

text \<open>
  The claim C9 as stated fails at once: the constructor lays the table out without a cue
  ball, so the opening state has no cue record.
\<close>

theorem cue_counterexample: "cueRecords (ballManager (newGame 1600 805 0)) = 0"
  by (simp add: newGame_def initializeGame_def cueRecords_setupStartingPositions split: prod.split)

text \<open>In every reachable state the counter of consecutive colours is at least 1 when the
  ball potted last was a colour, so the hypothesis of the theorem on the second colour holds
  whenever its other hypotheses do.\<close>

lemma colourCounted_cong:
  "lastPottedBall g' = lastPottedBall g \<Longrightarrow> consecutiveColoredPotted g' = consecutiveColoredPotted g \<Longrightarrow>
     colourCounted g' = colourCounted g"
  by (simp add: colourCounted_def split: option.split)

lemma colourCounted_handleBallPotted: "colourCounted (handleBallPotted now i g)"
proof (cases "isColoured (colorName (balls (ballManager g) ! i))")
  case True
  then show ?thesis
    by (simp add: colourCounted_def handleBallPotted_coloured_sm)
next
  case False
  then show ?thesis
    by (simp add: colourCounted_def)
qed

lemma colourCounted_checkBall: "colourCounted g \<Longrightarrow> colourCounted (checkBall now i g)"
  using checkBall_cases [of now i g]
  by (elim disjE conjE) (simp_all add: colourCounted_handleBallPotted colourCounted_cong [of "foldl _ _ _" g])

lemma colourCounted_foldl:
  "colourCounted g \<Longrightarrow> colourCounted (foldl (\<lambda>g i. checkBall now i g) g is)"
  by (induction "is" arbitrary: g) (simp_all add: colourCounted_checkBall)

lemma colourCounted_gameUpdate: "colourCounted g \<Longrightarrow> colourCounted (gameUpdate now g)"
proof (cases "isPaused g")
  case True
  then show "colourCounted g \<Longrightarrow> ?thesis" by (simp add: gameUpdate_def)
next
  case False
  assume c: "colourCounted g"
  define g1 where "g1 = g\<lparr>ballManager := (ballManager g)\<lparr>balls := map ballUpdate (balls (ballManager g))\<rparr>\<rparr>"
  define g3 where "g3 = (if ballsMoving g1 \<and> \<not> checkBallsMoving g1
       then g1\<lparr>ballsMoving := checkBallsMoving g1,
              scoreManager := endShot now (scoreManager g1)\<rparr>
       else g1\<lparr>ballsMoving := checkBallsMoving g1\<rparr>)"
  have "colourCounted g3 = colourCounted g"
    by (rule colourCounted_cong) (simp_all add: g3_def g1_def)
  with c have "colourCounted (checkPottedBalls now g3)"
    by (simp add: checkPottedBalls_def colourCounted_foldl)
  moreover have "gameUpdate now g = checkEscapedBalls (checkPottedBalls now g3)"
    using False by (simp add: gameUpdate_def Let_def g3_def g1_def)
  moreover have "colourCounted (checkEscapedBalls g') = colourCounted g'" for g'
    by (rule colourCounted_cong) (simp_all add: checkEscapedBalls_def)
  ultimately show ?thesis
    by simp
qed

lemma handlers_keep_counter:
  "lastPottedBall (handleMousePress x y g) = lastPottedBall g"
  "consecutiveColoredPotted (handleMousePress x y g) = consecutiveColoredPotted g"
  "lastPottedBall (updateTablePosition w h g) = lastPottedBall g"
  "consecutiveColoredPotted (updateTablePosition w h g) = consecutiveColoredPotted g"
  by (simp_all add: handleMousePress_def updateTablePosition_def updateCueBallPosition_def Let_def
        split: prod.split)

lemma reachable_colourCounted: "reachable g \<Longrightarrow> colourCounted g"
proof (induction rule: reachable.induct)
  case (start windowWidth windowHeight now)
  then show ?case
    by (simp add: colourCounted_def newGame_fields)
next
  case (frame g now)
  then show ?case
    by (simp add: colourCounted_gameUpdate)
next
  case (key g k rnd g')
  then show ?case
    by (auto simp add: handleKeyPress_def resetForLayout_def colourCounted_def
          split: if_splits option.splits prod.splits)
next
  case (press g x y)
  then show ?case
    by (simp add: colourCounted_cong [OF handlers_keep_counter(1,2)])
next
  case (resize g windowWidth windowHeight)
  then show ?case
    by (simp add: colourCounted_cong [OF handlers_keep_counter(3,4)])
next
  case (engine g bs)
  then show ?case
    by (simp add: colourCounted_cong [of "g\<lparr>ballManager := _\<rparr>" g])
next
  case (shoot g)
  then show ?case
    by (simp add: colourCounted_cong [of "g\<lparr>scoreManager := _\<rparr>" g])
next
  case (settle g)
  then show ?case
    by (simp add: colourCounted_cong [of "g\<lparr>ballManager := _\<rparr>" g])
next
  case (ballHit g c)
  then show ?case
    by (simp add: colourCounted_cong [of "g\<lparr>scoreManager := _\<rparr>" g])
next
  case (cushionHit g)
  then show ?case
    by (simp add: colourCounted_cong [of "g\<lparr>scoreManager := _\<rparr>" g])
qed

lemma reachable_second_colour:
  assumes "reachable g" and "lastPottedBall g = Some l" and "isColoured l"
  shows "2 \<le> consecutiveColoredPotted g + 1"
  using reachable_colourCounted [OF assms(1)] assms(2,3) by (simp add: colourCounted_def)

end
